theory Spec2Isabelle
  imports Main
begin

section \<open>Data model\<close>

text \<open>
  The chat subsystem of the repository: the Socket.IO service
  (\<^verbatim>\<open>src/services/socketService.ts\<close>), the REST routes of \<^verbatim>\<open>src/routes/chat.ts\<close>, the
  route of \<^verbatim>\<open>src/routes/users.ts\<close> that renames a user, and the three chat tables of
  \<^verbatim>\<open>src/database/schema.ts\<close>.

  Conventions of the embedding.
  \<^item> A table is the list of its rows in insertion order; an \<^verbatim>\<open>UPDATE\<close> rewrites rows in place.
    \<^verbatim>\<open>select ... limit(1)\<close> followed by \<^verbatim>\<open>const [row] = ...\<close> is \<^const>\<open>find\<close>: the first
    matching row, or \<^const>\<open>None\<close> for \<^verbatim>\<open>undefined\<close>.
  \<^item> A \<^verbatim>\<open>serial\<close> primary key is drawn from a per-table sequence that starts at 1. A
    statement that fails leaves the sequence as it was here, while PostgreSQL may have used
    up a value: ids grow along a table in both, and may have gaps in PostgreSQL.
  \<^item> Numbers that come from a client are \<^typ>\<open>int\<close>. A statement that compares such a number
    with an \<^verbatim>\<open>integer\<close> column, or stores it in one, throws when the number is outside the
    32-bit range of the column (\<^verbatim>\<open>int4\<close>); so does an \<^verbatim>\<open>INSERT\<close> of a text the column
    cannot hold. The ids of users come from the \<^verbatim>\<open>users\<close> table, whose rows are never
    deleted: they are in range and the foreign keys that refer to them hold.
  \<^item> \<^verbatim>\<open>new Date()\<close> and \<^verbatim>\<open>defaultNow()\<close> read a clock that is an argument of every handler.
  \<^item> A JavaScript \<^verbatim>\<open>Set\<close> is a duplicate-free list in insertion order, a \<^verbatim>\<open>Map\<close> is a map.
  \<^item> What a socket has been sent is recorded in its outbox, one list of events per socket.
  \<^item> The two handlers that send messages, \<^verbatim>\<open>handleSendMessage\<close> and \<^verbatim>\<open>handlePrivateMessage\<close>,
    are modelled \<^verbatim>\<open>await\<close> by \<^verbatim>\<open>await\<close>: a step runs one storage statement and what the
    handler does with its answer, and between two statements of a call other handlers can
    run. Every other handler runs as one step.
  \<^item> The Redis cache of recent messages (\<^verbatim>\<open>cacheMessage\<close>, \<^verbatim>\<open>getRoomMessages\<close>) only feeds the
    message list of the \<^verbatim>\<open>joined-room\<close> payload and never throws; it is left out, together
    with the \<^verbatim>\<open>settings\<close> and avatar fields. Of the \<^verbatim>\<open>metadata\<close> of a message only whether the
    \<^verbatim>\<open>jsonb\<close> column can hold it is kept.
  \<^item> The rate limiter and the authentication middleware run before the handlers of the REST
    routes, and the transport of Socket.IO, with its limit on the size of a message, before
    the listeners; handlers and listeners are modelled from their first statement on, for
    the calls that reach them.
  \<^item> Of the \<^verbatim>\<open>users\<close> table the ids and the usernames are kept. The table a run starts from
    is a parameter; registration and sign-in, which add rows with new ids and with usernames
    that no row bears, are not among the actions.
\<close>

type_synonym socket_id = string
type_synonym timestamp = nat

record SocketUser =
  su_id :: int
  su_username :: string
  su_role :: string

record UserRow =
  user_id :: int
  user_username :: string

record RoomRow =
  room_id :: int
  room_name :: string
  room_description :: "string option"
  room_type :: string
  room_createdBy :: int
  room_isActive :: bool
  room_maxParticipants :: int

record ParticipantRow =
  p_id :: int
  p_userId :: int
  p_roomId :: int
  p_role :: string
  p_joinedAt :: timestamp
  p_lastSeenAt :: "timestamp option"
  p_isActive :: bool

record MessageRow =
  m_id :: int
  m_content :: string
  m_type :: string
  m_senderId :: int
  m_roomId :: int
  m_replyToId :: "int option"
  m_isEdited :: bool
  m_isDeleted :: bool
  m_createdAt :: timestamp

record ChatMessage =
  cm_id :: int
  cm_content :: string
  cm_type :: string
  cm_senderId :: int
  cm_senderUsername :: string
  cm_roomId :: int
  cm_replyToId :: "int option"
  cm_createdAt :: timestamp

record RoomInfo =
  ri_id :: int
  ri_name :: string
  ri_type :: string
  ri_participantCount :: nat

record Db =
  users :: "UserRow list"
  chatRooms :: "RoomRow list"
  roomParticipants :: "ParticipantRow list"
  chatMessages :: "MessageRow list"
  chatRooms_seq :: int
  roomParticipants_seq :: int
  chatMessages_seq :: int

text \<open>
  The events a socket can be sent, named after the Socket.IO event names, with the parts of
  their payloads that identify users, rooms and messages.
\<close>

datatype Event =
    ErrorEv string
  | UserInfo SocketUser "int list"
  | JoinedRoom RoomInfo
  | UserJoined int int
  | UserLeft int int
  | LeftRoom int
  | NewMessage ChatMessage
  | NewDmRoom int string int
  | UserTyping int int
  | UserStopTyping int int
  | ReactionUpdated int string int
  | OnlineUsers int "SocketUser list"

text \<open>
  The payload of \<^verbatim>\<open>send-message\<close>. Its \<^verbatim>\<open>metadata\<close> is any value of the client: \<^const>\<open>None\<close>
  when absent, else a value that the \<^verbatim>\<open>jsonb\<close> column stores or one that it rejects.
\<close>

datatype Metadata = Storable | Unstorable

record SendData =
  sd_roomId :: int
  sd_content :: string
  sd_type :: "string option"
  sd_replyToId :: "int option"
  sd_metadata :: "Metadata option"

text \<open>
  \<^verbatim>\<open>handleSendMessage\<close> is called by the \<^verbatim>\<open>send-message\<close> listener and by
  \<^verbatim>\<open>handlePrivateMessage\<close>, which goes on, after the call, with the room, its name and the id
  of the recipient.
\<close>

datatype Caller = Listener | PrivateMessage RoomRow string int

text \<open>
  A call that waits at an \<^verbatim>\<open>await\<close>, named after what it does next. Of a private message:
  \<^term>\<open>AwaitRoom sid user recipient content\<close> has read the recipient and looks the room up
  next; \<^term>\<open>AwaitRoomInsert sid user recipient content\<close> has found no room and inserts one;
  \<^term>\<open>AwaitParticipants sid user recipient room content\<close> has inserted the room and inserts
  the two participants; \<^term>\<open>AwaitSend sid user data caller\<close> has its room and calls
  \<^verbatim>\<open>handleSendMessage\<close>. Of \<^verbatim>\<open>handleSendMessage\<close>: \<^term>\<open>AwaitInsert sid user data caller\<close> has
  passed the membership check and stores its row next; \<^term>\<open>AwaitEmit user m caller\<close> has
  stored its row and broadcasts the message \<open>m\<close> built from it. And
  \<^term>\<open>AwaitNotify user room roomName recipientId\<close> is a private message that has been
  broadcast, before the sockets of the recipient are told of the room.
\<close>

datatype Task =
    AwaitRoom socket_id SocketUser UserRow string
  | AwaitRoomInsert socket_id SocketUser UserRow string
  | AwaitParticipants socket_id SocketUser UserRow RoomRow string
  | AwaitSend socket_id SocketUser SendData Caller
  | AwaitInsert socket_id SocketUser SendData Caller
  | AwaitEmit SocketUser ChatMessage Caller
  | AwaitNotify SocketUser RoomRow string int

text \<open>
  The state of the server: the database, the two registries of \<^verbatim>\<open>SocketService\<close>
  (\<^verbatim>\<open>connectedUsers\<close>, \<^verbatim>\<open>userRooms\<close>), the Socket.IO adapter (which socket has joined which
  \<^verbatim>\<open>room:<id>\<close> channel), the outboxes and the calls that wait.
\<close>

record State =
  db :: Db
  connectedUsers :: "socket_id \<rightharpoonup> SocketUser"
  userRooms :: "int \<rightharpoonup> socket_id list"
  joined :: "(socket_id \<times> int) list"
  outbox :: "socket_id \<Rightarrow> Event list"
  tasks :: "Task list"

section \<open>Storage statements\<close>

text \<open>The range of an \<^verbatim>\<open>integer\<close> column, and the texts PostgreSQL stores (no NUL character).\<close>

definition int4 :: "int \<Rightarrow> bool" where
  "int4 n \<longleftrightarrow> - 2147483648 \<le> n \<and> n \<le> 2147483647"

definition text_value :: "string \<Rightarrow> bool" where
  "text_value t \<longleftrightarrow> CHR 0x00 \<notin> set t"

text \<open>The unique index \<^verbatim>\<open>user_room_idx\<close> on (userId, roomId).\<close>

definition user_room_key :: "ParticipantRow \<Rightarrow> int \<times> int" where
  "user_room_key p = (p_userId p, p_roomId p)"

definition number_rows :: "int \<Rightarrow> ParticipantRow list \<Rightarrow> ParticipantRow list" where
  "number_rows n vals = map (\<lambda>(i, v). v\<lparr>p_id := n + int i\<rparr>) (enumerate 0 vals)"

text \<open>
  One \<^verbatim>\<open>INSERT\<close> into \<^verbatim>\<open>room_participants\<close>, of one or several rows: it fails as a whole
  (\<^const>\<open>None\<close>, the statement throws) when a new row repeats a (userId, roomId) pair.
  The \<^const>\<open>p_id\<close> of the given rows is ignored; it is drawn from the sequence.
\<close>

definition insert_roomParticipants :: "ParticipantRow list \<Rightarrow> Db \<Rightarrow> Db option" where
  "insert_roomParticipants vals d =
     (let new = number_rows (roomParticipants_seq d) vals in
      if distinct (map user_room_key new)
         \<and> (\<forall>k \<in> set (map user_room_key new). k \<notin> set (map user_room_key (roomParticipants d)))
      then Some (d\<lparr>roomParticipants := roomParticipants d @ new,
                   roomParticipants_seq := roomParticipants_seq d + int (length vals)\<rparr>)
      else None)"

definition insert_chatRooms :: "RoomRow \<Rightarrow> Db \<Rightarrow> RoomRow \<times> Db" where
  "insert_chatRooms v d =
     (let row = v\<lparr>room_id := chatRooms_seq d\<rparr>
      in (row, d\<lparr>chatRooms := chatRooms d @ [row], chatRooms_seq := chatRooms_seq d + 1\<rparr>))"

text \<open>
  The rows the two tables take: \<^verbatim>\<open>name varchar(255)\<close>, \<^verbatim>\<open>type varchar(20)\<close>,
  \<^verbatim>\<open>max_participants integer\<close> of \<^verbatim>\<open>chat_rooms\<close>; \<^verbatim>\<open>content text\<close>, \<^verbatim>\<open>type varchar(20)\<close>,
  \<^verbatim>\<open>room_id integer\<close>, \<^verbatim>\<open>reply_to_id integer\<close> (no foreign key) and \<^verbatim>\<open>metadata jsonb\<close> of
  \<^verbatim>\<open>chat_messages\<close>.
\<close>

definition chatRooms_accepts :: "RoomRow \<Rightarrow> bool" where
  "chatRooms_accepts v \<longleftrightarrow>
     text_value (room_name v) \<and> length (room_name v) \<le> 255
     \<and> (case room_description v of None \<Rightarrow> True | Some t \<Rightarrow> text_value t)
     \<and> text_value (room_type v) \<and> length (room_type v) \<le> 20
     \<and> int4 (room_maxParticipants v)"

definition chatMessages_accepts :: "MessageRow \<Rightarrow> Metadata option \<Rightarrow> bool" where
  "chatMessages_accepts v metadata \<longleftrightarrow>
     text_value (m_content v)
     \<and> text_value (m_type v) \<and> length (m_type v) \<le> 20
     \<and> int4 (m_roomId v)
     \<and> (case m_replyToId v of None \<Rightarrow> True | Some r \<Rightarrow> int4 r)
     \<and> metadata \<noteq> Some Unstorable"

text \<open>
  One \<^verbatim>\<open>INSERT\<close> into \<^verbatim>\<open>chat_messages\<close> with \<^verbatim>\<open>returning()\<close>: \<^const>\<open>None\<close> when the statement
  throws, else the stored row and the database after it.
\<close>

definition insert_chatMessages ::
  "MessageRow \<Rightarrow> Metadata option \<Rightarrow> Db \<Rightarrow> (MessageRow \<times> Db) option" where
  "insert_chatMessages v metadata d =
     (if chatMessages_accepts v metadata
      then (let row = v\<lparr>m_id := chatMessages_seq d\<rparr>
            in Some (row, d\<lparr>chatMessages := chatMessages d @ [row],
                            chatMessages_seq := chatMessages_seq d + 1\<rparr>))
      else None)"

definition update_roomParticipants ::
  "(ParticipantRow \<Rightarrow> bool) \<Rightarrow> (ParticipantRow \<Rightarrow> ParticipantRow) \<Rightarrow> Db \<Rightarrow> Db" where
  "update_roomParticipants cond upd d =
     d\<lparr>roomParticipants := map (\<lambda>p. if cond p then upd p else p) (roomParticipants d)\<rparr>"

section \<open>Socket.IO primitives\<close>

definition roomSockets :: "State \<Rightarrow> int \<Rightarrow> socket_id list" where
  "roomSockets s R = map fst (filter (\<lambda>(c, r). r = R) (joined s))"

definition socketRooms :: "State \<Rightarrow> socket_id \<Rightarrow> int list" where
  "socketRooms s sid = map snd (filter (\<lambda>(c, r). c = sid) (joined s))"

definition socket_join :: "socket_id \<Rightarrow> int \<Rightarrow> State \<Rightarrow> State" where
  "socket_join sid R s =
     (if (sid, R) \<in> set (joined s) then s else s\<lparr>joined := joined s @ [(sid, R)]\<rparr>)"

definition socket_leave :: "socket_id \<Rightarrow> int \<Rightarrow> State \<Rightarrow> State" where
  "socket_leave sid R s = s\<lparr>joined := removeAll (sid, R) (joined s)\<rparr>"

definition emitAll :: "socket_id list \<Rightarrow> Event \<Rightarrow> State \<Rightarrow> State" where
  "emitAll targets e s =
     s\<lparr>outbox := (\<lambda>c. if c \<in> set targets then outbox s c @ [e] else outbox s c)\<rparr>"

text \<open>\<^verbatim>\<open>socket.emit(e)\<close>, \<^verbatim>\<open>this.io.to(`room:R`).emit(e)\<close> and \<^verbatim>\<open>socket.to(`room:R`).emit(e)\<close>.\<close>

definition emit :: "socket_id \<Rightarrow> Event \<Rightarrow> State \<Rightarrow> State" where
  "emit sid e s = emitAll [sid] e s"

definition io_to_emit :: "int \<Rightarrow> Event \<Rightarrow> State \<Rightarrow> State" where
  "io_to_emit R e s = emitAll (roomSockets s R) e s"

definition socket_to_emit :: "socket_id \<Rightarrow> int \<Rightarrow> Event \<Rightarrow> State \<Rightarrow> State" where
  "socket_to_emit sid R e s = emitAll (removeAll sid (roomSockets s R)) e s"

section \<open>The socket service\<close>

subsection \<open>Connection and disconnection\<close>

text \<open>\<^verbatim>\<open>sendUserInfo\<close>: the ids of the active rooms in which the user is an active participant.\<close>

definition sendUserInfo :: "State \<Rightarrow> socket_id \<Rightarrow> SocketUser \<Rightarrow> State" where
  "sendUserInfo s sid user =
     (let rooms =
        concat (map (\<lambda>r. map (\<lambda>p. room_id r)
                      (filter (\<lambda>p. room_id r = p_roomId p \<and> p_userId p = su_id user
                                    \<and> p_isActive p \<and> room_isActive r)
                              (roomParticipants (db s))))
                    (chatRooms (db s)))
      in emit sid (UserInfo user rooms) s)"

definition set_add :: "'a \<Rightarrow> 'a list \<Rightarrow> 'a list" where
  "set_add x xs = (if x \<in> set xs then xs else xs @ [x])"

text \<open>The body of \<^verbatim>\<open>this.io.on('connection', ...)\<close> up to the registration of the handlers.\<close>

definition connection :: "State \<Rightarrow> socket_id \<Rightarrow> SocketUser \<Rightarrow> State" where
  "connection s sid user =
     (let s1 = s\<lparr>connectedUsers := (connectedUsers s)(sid \<mapsto> user)\<rparr>;
          s2 = (case userRooms s1 (su_id user) of
                  None \<Rightarrow> s1\<lparr>userRooms := (userRooms s1)(su_id user \<mapsto> [])\<rparr>
                | Some _ \<Rightarrow> s1);
          s3 = (case userRooms s2 (su_id user) of
                  None \<Rightarrow> s2
                | Some ids \<Rightarrow> s2\<lparr>userRooms := (userRooms s2)(su_id user \<mapsto> set_add sid ids)\<rparr>)
      in sendUserInfo s3 sid user)"

text \<open>
  The \<^verbatim>\<open>disconnect\<close> handler. Socket.IO has taken the socket out of all its rooms before the
  event fires, so \<^verbatim>\<open>socket.rooms\<close> is empty and the \<^verbatim>\<open>user-offline\<close> loop sends nothing.
\<close>

definition disconnect :: "State \<Rightarrow> socket_id \<Rightarrow> SocketUser \<Rightarrow> State" where
  "disconnect s sid user =
     (let s0 = s\<lparr>joined := filter (\<lambda>(c, r). c \<noteq> sid) (joined s)\<rparr>;
          s1 = s0\<lparr>connectedUsers := (connectedUsers s0)(sid := None)\<rparr>
      in case userRooms s1 (su_id user) of
           None \<Rightarrow> s1
         | Some userSocketIds \<Rightarrow>
             (let ids = removeAll sid userSocketIds in
              if length ids = 0 then s1\<lparr>userRooms := (userRooms s1)(su_id user := None)\<rparr>
              else s1\<lparr>userRooms := (userRooms s1)(su_id user \<mapsto> ids)\<rparr>))"

definition getUserConnectionCount :: "State \<Rightarrow> int \<Rightarrow> nat" where
  "getUserConnectionCount s userId =
     (case userRooms s userId of None \<Rightarrow> 0 | Some userSocketIds \<Rightarrow> length userSocketIds)"

subsection \<open>Joining and leaving a room over the socket\<close>

text \<open>
  The participant count of \<^verbatim>\<open>getRoomInfo\<close> is
  \<^verbatim>\<open>db.select({ count: chatRooms.id }).from(roomParticipants).where(...)\<close>: it selects a column
  of \<^verbatim>\<open>chat_rooms\<close> from \<^verbatim>\<open>room_participants\<close> without a join. The query builder refuses a
  field whose table is not part of the query, so the statement throws whatever the tables
  hold: \<^const>\<open>None\<close>.
\<close>

definition participantCount :: "Db \<Rightarrow> int \<Rightarrow> nat option" where
  "participantCount d roomId = None"

text \<open>\<^verbatim>\<open>getRoomInfo\<close>: \<^const>\<open>None\<close> when it throws.\<close>

definition getRoomInfo :: "Db \<Rightarrow> int \<Rightarrow> RoomInfo option" where
  "getRoomInfo d roomId =
     (case find (\<lambda>r. room_id r = roomId) (chatRooms d) of
        None \<Rightarrow> None
      | Some room \<Rightarrow>
          (case participantCount d roomId of
             None \<Rightarrow> None
           | Some n \<Rightarrow>
               Some \<lparr>ri_id = room_id room, ri_name = room_name room, ri_type = room_type room,
                     ri_participantCount = n\<rparr>))"

text \<open>
  A handler returns \<^term>\<open>Inr s\<close> when it runs to its end in state \<open>s\<close> and \<^term>\<open>Inl s\<close> when a
  statement throws in state \<open>s\<close>; the \<^verbatim>\<open>try/catch\<close> around the call then reports the failure.
\<close>

text \<open>
  Lines 300 to 323 of \<^verbatim>\<open>handleJoinRoom\<close>: subscribe the socket, fetch the room information and
  announce the socket.
\<close>

definition joinSocketRoom :: "State \<Rightarrow> socket_id \<Rightarrow> SocketUser \<Rightarrow> int \<Rightarrow> State + State" where
  "joinSocketRoom s sid user roomId =
     (let s1 = socket_join sid roomId s in
      case getRoomInfo (db s1) roomId of
        None \<Rightarrow> Inl s1
      | Some roomInfo \<Rightarrow>
          Inr (socket_to_emit sid roomId (UserJoined (su_id user) roomId)
                 (emit sid (JoinedRoom roomInfo) s1)))"

definition handleJoinRoom ::
  "timestamp \<Rightarrow> State \<Rightarrow> socket_id \<Rightarrow> SocketUser \<Rightarrow> int \<Rightarrow> State + State" where
  "handleJoinRoom now s sid user roomId =
     (if \<not> int4 roomId then Inl s
      else
      case find (\<lambda>r. room_id r = roomId \<and> room_isActive r) (chatRooms (db s)) of
        None \<Rightarrow> Inr (emit sid (ErrorEv ''Room not found'') s)
      | Some room \<Rightarrow>
          (case find (\<lambda>p. p_roomId p = roomId \<and> p_userId p = su_id user)
                     (roomParticipants (db s)) of
             None \<Rightarrow>
               if room_type room = ''private''
               then Inr (emit sid (ErrorEv ''Access denied to private room'') s)
               else (case insert_roomParticipants
                            [\<lparr>p_id = 0, p_userId = su_id user, p_roomId = roomId,
                              p_role = ''member'', p_joinedAt = now, p_lastSeenAt = Some now,
                              p_isActive = True\<rparr>] (db s) of
                       None \<Rightarrow> Inl s
                     | Some d \<Rightarrow> joinSocketRoom (s\<lparr>db := d\<rparr>) sid user roomId)
           | Some participant \<Rightarrow>
               joinSocketRoom
                 (s\<lparr>db := update_roomParticipants (\<lambda>p. p_id p = p_id participant)
                            (\<lambda>p. p\<lparr>p_lastSeenAt := Some now, p_isActive := True\<rparr>) (db s)\<rparr>)
                 sid user roomId))"

definition on_join_room :: "timestamp \<Rightarrow> State \<Rightarrow> socket_id \<Rightarrow> SocketUser \<Rightarrow> int \<Rightarrow> State" where
  "on_join_room now s sid user roomId =
     (case handleJoinRoom now s sid user roomId of
        Inl s' \<Rightarrow> emit sid (ErrorEv ''Failed to join room'') s'
      | Inr s' \<Rightarrow> s')"

definition handleLeaveRoom ::
  "timestamp \<Rightarrow> State \<Rightarrow> socket_id \<Rightarrow> SocketUser \<Rightarrow> int \<Rightarrow> State + State" where
  "handleLeaveRoom now s sid user roomId =
     (let s1 = socket_leave sid roomId s in
      if \<not> int4 roomId then Inl s1
      else
        (let s2 = s1\<lparr>db := update_roomParticipants
                              (\<lambda>p. p_roomId p = roomId \<and> p_userId p = su_id user)
                              (\<lambda>p. p\<lparr>p_lastSeenAt := Some now, p_isActive := False\<rparr>) (db s1)\<rparr>;
             s3 = socket_to_emit sid roomId (UserLeft (su_id user) roomId) s2
         in Inr (emit sid (LeftRoom roomId) s3)))"

definition on_leave_room :: "timestamp \<Rightarrow> State \<Rightarrow> socket_id \<Rightarrow> SocketUser \<Rightarrow> int \<Rightarrow> State" where
  "on_leave_room now s sid user roomId =
     (case handleLeaveRoom now s sid user roomId of
        Inl s' \<Rightarrow> emit sid (ErrorEv ''Failed to leave room'') s'
      | Inr s' \<Rightarrow> s')"

subsection \<open>Sending a message\<close>

text \<open>JavaScript's \<^verbatim>\<open>x || d\<close> on an optional string and on an optional number.\<close>

definition or_text :: "string option \<Rightarrow> string" where
  "or_text t = (case t of None \<Rightarrow> ''text'' | Some v \<Rightarrow> if v = [] then ''text'' else v)"

definition or_undefined :: "int option \<Rightarrow> int option" where
  "or_undefined r = (case r of None \<Rightarrow> None | Some v \<Rightarrow> if v = 0 then None else Some v)"

text \<open>The values of the \<^verbatim>\<open>INSERT\<close> (the id is drawn by the table) and the object broadcast.\<close>

definition messageValues :: "timestamp \<Rightarrow> SocketUser \<Rightarrow> SendData \<Rightarrow> MessageRow" where
  "messageValues now user data =
     \<lparr>m_id = 0, m_content = sd_content data, m_type = or_text (sd_type data),
      m_senderId = su_id user, m_roomId = sd_roomId data,
      m_replyToId = sd_replyToId data, m_isEdited = False, m_isDeleted = False,
      m_createdAt = now\<rparr>"

definition chatMessage :: "SocketUser \<Rightarrow> SendData \<Rightarrow> MessageRow \<Rightarrow> ChatMessage" where
  "chatMessage user data message =
     \<lparr>cm_id = m_id message, cm_content = m_content message,
      cm_type = m_type message, cm_senderId = su_id user,
      cm_senderUsername = su_username user, cm_roomId = sd_roomId data,
      cm_replyToId = or_undefined (m_replyToId message),
      cm_createdAt = m_createdAt message\<rparr>"

text \<open>\<^verbatim>\<open>handleSendMessage\<close> and its listener when nothing else runs between their statements.\<close>

definition handleSendMessage ::
  "timestamp \<Rightarrow> State \<Rightarrow> socket_id \<Rightarrow> SocketUser \<Rightarrow> SendData \<Rightarrow> State + State" where
  "handleSendMessage now s sid user data =
     (if \<not> int4 (sd_roomId data) then Inl s
      else
      case find (\<lambda>p. p_roomId p = sd_roomId data \<and> p_userId p = su_id user \<and> p_isActive p)
                (roomParticipants (db s)) of
        None \<Rightarrow> Inr (emit sid (ErrorEv ''You are not a member of this room'') s)
      | Some participant \<Rightarrow>
          (case insert_chatMessages (messageValues now user data) (sd_metadata data) (db s) of
             None \<Rightarrow> Inl s
           | Some (message, d) \<Rightarrow>
               Inr (io_to_emit (sd_roomId data) (NewMessage (chatMessage user data message))
                      (s\<lparr>db := d\<rparr>))))"

definition on_send_message ::
  "timestamp \<Rightarrow> State \<Rightarrow> socket_id \<Rightarrow> SocketUser \<Rightarrow> SendData \<Rightarrow> State" where
  "on_send_message now s sid user data =
     (case handleSendMessage now s sid user data of
        Inl s' \<Rightarrow> emit sid (ErrorEv ''Failed to send message'') s'
      | Inr s' \<Rightarrow> s')"

subsection \<open>Direct messages\<close>

definition dmRoomName :: "string \<Rightarrow> string \<Rightarrow> string" where
  "dmRoomName senderName recipientName = ''DM: '' @ senderName @ '' & '' @ recipientName"

text \<open>The values of the room, of its two participants and of the message.\<close>

definition directRoomValues :: "SocketUser \<Rightarrow> string \<Rightarrow> RoomRow" where
  "directRoomValues user roomName =
     \<lparr>room_id = 0, room_name = roomName,
      room_description = Some ''Direct message conversation'',
      room_type = ''direct'', room_createdBy = su_id user, room_isActive = True,
      room_maxParticipants = 2\<rparr>"

definition directParticipants :: "timestamp \<Rightarrow> SocketUser \<Rightarrow> UserRow \<Rightarrow> RoomRow \<Rightarrow> ParticipantRow list" where
  "directParticipants now user recipient room =
     [\<lparr>p_id = 0, p_userId = su_id user, p_roomId = room_id room,
       p_role = ''member'', p_joinedAt = now, p_lastSeenAt = None, p_isActive = True\<rparr>,
      \<lparr>p_id = 0, p_userId = user_id recipient, p_roomId = room_id room,
       p_role = ''member'', p_joinedAt = now, p_lastSeenAt = None, p_isActive = True\<rparr>]"

definition directMessage :: "RoomRow \<Rightarrow> string \<Rightarrow> SendData" where
  "directMessage room content =
     \<lparr>sd_roomId = room_id room, sd_content = content, sd_type = Some ''text'',
      sd_replyToId = None, sd_metadata = None\<rparr>"

text \<open>
  Lines 431 to 473 of \<^verbatim>\<open>handlePrivateMessage\<close>, the create-or-get of the direct room, when
  nothing else runs between its statements: \<^term>\<open>Inr (d, room)\<close> is the room and the database
  after it, \<^term>\<open>Inl d\<close> the database in which the insert of the room or of the two
  participants threw.
\<close>

definition resolveDirectRoom ::
  "timestamp \<Rightarrow> Db \<Rightarrow> SocketUser \<Rightarrow> UserRow \<Rightarrow> Db + Db \<times> RoomRow" where
  "resolveDirectRoom now d user recipient =
     (let roomName = dmRoomName (su_username user) (user_username recipient) in
      case find (\<lambda>r. room_name r = roomName \<and> room_type r = ''direct'') (chatRooms d) of
        Some room \<Rightarrow> Inr (d, room)
      | None \<Rightarrow>
          if \<not> chatRooms_accepts (directRoomValues user roomName) then Inl d
          else
          (let (room, d1) = insert_chatRooms (directRoomValues user roomName) d
           in case insert_roomParticipants (directParticipants now user recipient room) d1 of
                None \<Rightarrow> Inl d1
              | Some d2 \<Rightarrow> Inr (d2, room)))"

text \<open>Lines 482 to 503: every live socket of the recipient joins the room and is told of it.\<close>

definition notifyRecipient ::
  "SocketUser \<Rightarrow> RoomRow \<Rightarrow> string \<Rightarrow> socket_id \<Rightarrow> State \<Rightarrow> State" where
  "notifyRecipient user room roomName socketId s =
     (case connectedUsers s socketId of
        None \<Rightarrow> s
      | Some _ \<Rightarrow> emit socketId (NewDmRoom (room_id room) roomName (su_id user))
                    (socket_join socketId (room_id room) s))"

definition notifyRecipients :: "SocketUser \<Rightarrow> RoomRow \<Rightarrow> string \<Rightarrow> int \<Rightarrow> State \<Rightarrow> State" where
  "notifyRecipients user room roomName recipientId s =
     (case userRooms s recipientId of
        None \<Rightarrow> s
      | Some recipientSocketIds \<Rightarrow> fold (notifyRecipient user room roomName) recipientSocketIds s)"

subsection \<open>The two sending handlers, \<^verbatim>\<open>await\<close> by \<^verbatim>\<open>await\<close>\<close>

text \<open>
  Each definition runs one storage statement of a handler and what the handler does with its
  answer, up to the next statement; a call that goes on waits in \<^const>\<open>tasks\<close>. A statement
  that throws is answered by the \<^verbatim>\<open>catch\<close> of the listener that called.
  \<^item> \<^verbatim>\<open>handlePrivateMessage\<close>: \<^term>\<open>private_message_select\<close> reads the recipient,
    \<^term>\<open>room_select\<close> looks the room up, \<^term>\<open>room_insert\<close> and \<^term>\<open>participants_insert\<close>
    create it, and the call goes on with \<^verbatim>\<open>handleSendMessage\<close>; when that returns,
    \<^term>\<open>notifyRecipients\<close> tells the sockets of the recipient.
  \<^item> \<^verbatim>\<open>handleSendMessage\<close>: \<^term>\<open>send_select\<close> checks the membership, \<^term>\<open>send_insert\<close> stores
    the row, \<^term>\<open>send_emit\<close> broadcasts the message, up to the \<^verbatim>\<open>await\<close> of \<^verbatim>\<open>cacheMessage\<close>.
\<close>

definition wait :: "Task \<Rightarrow> State \<Rightarrow> State" where
  "wait t s = s\<lparr>tasks := tasks s @ [t]\<rparr>"

fun failed :: "Caller \<Rightarrow> string" where
  "failed Listener = ''Failed to send message''"
| "failed (PrivateMessage room roomName recipientId) = ''Failed to send private message''"

fun returned :: "Caller \<Rightarrow> SocketUser \<Rightarrow> State \<Rightarrow> State" where
  "returned Listener user s = s"
| "returned (PrivateMessage room roomName recipientId) user s =
     notifyRecipients user room roomName recipientId s"

definition send_select ::
  "State \<Rightarrow> socket_id \<Rightarrow> SocketUser \<Rightarrow> SendData \<Rightarrow> Caller \<Rightarrow> State" where
  "send_select s sid user data caller =
     (if \<not> int4 (sd_roomId data) then emit sid (ErrorEv (failed caller)) s
      else
      case find (\<lambda>p. p_roomId p = sd_roomId data \<and> p_userId p = su_id user \<and> p_isActive p)
                (roomParticipants (db s)) of
        None \<Rightarrow> returned caller user (emit sid (ErrorEv ''You are not a member of this room'') s)
      | Some participant \<Rightarrow> wait (AwaitInsert sid user data caller) s)"

definition send_insert ::
  "timestamp \<Rightarrow> State \<Rightarrow> socket_id \<Rightarrow> SocketUser \<Rightarrow> SendData \<Rightarrow> Caller \<Rightarrow> State" where
  "send_insert now s sid user data caller =
     (case insert_chatMessages (messageValues now user data) (sd_metadata data) (db s) of
        None \<Rightarrow> emit sid (ErrorEv (failed caller)) s
      | Some (message, d) \<Rightarrow>
          wait (AwaitEmit user (chatMessage user data message) caller) (s\<lparr>db := d\<rparr>))"

definition send_emit :: "State \<Rightarrow> SocketUser \<Rightarrow> ChatMessage \<Rightarrow> Caller \<Rightarrow> State" where
  "send_emit s user m caller =
     (let s1 = io_to_emit (cm_roomId m) (NewMessage m) s in
      case caller of
        Listener \<Rightarrow> s1
      | PrivateMessage room roomName recipientId \<Rightarrow>
          wait (AwaitNotify user room roomName recipientId) s1)"

definition private_message_select ::
  "State \<Rightarrow> socket_id \<Rightarrow> SocketUser \<Rightarrow> int \<Rightarrow> string \<Rightarrow> State" where
  "private_message_select s sid user recipientId content =
     (if \<not> int4 recipientId then emit sid (ErrorEv ''Failed to send private message'') s
      else
      case find (\<lambda>u. user_id u = recipientId) (users (db s)) of
        None \<Rightarrow> emit sid (ErrorEv ''Recipient not found'') s
      | Some recipient \<Rightarrow> wait (AwaitRoom sid user recipient content) s)"

definition room_select :: "State \<Rightarrow> socket_id \<Rightarrow> SocketUser \<Rightarrow> UserRow \<Rightarrow> string \<Rightarrow> State" where
  "room_select s sid user recipient content =
     (let roomName = dmRoomName (su_username user) (user_username recipient) in
      case find (\<lambda>r. room_name r = roomName \<and> room_type r = ''direct'') (chatRooms (db s)) of
        Some room \<Rightarrow>
          wait (AwaitSend sid user (directMessage room content)
                  (PrivateMessage room roomName (user_id recipient))) s
      | None \<Rightarrow> wait (AwaitRoomInsert sid user recipient content) s)"

definition room_insert :: "State \<Rightarrow> socket_id \<Rightarrow> SocketUser \<Rightarrow> UserRow \<Rightarrow> string \<Rightarrow> State" where
  "room_insert s sid user recipient content =
     (let roomName = dmRoomName (su_username user) (user_username recipient) in
      if \<not> chatRooms_accepts (directRoomValues user roomName)
      then emit sid (ErrorEv ''Failed to send private message'') s
      else
        (let (room, d1) = insert_chatRooms (directRoomValues user roomName) (db s)
         in wait (AwaitParticipants sid user recipient room content) (s\<lparr>db := d1\<rparr>)))"

definition participants_insert ::
  "timestamp \<Rightarrow> State \<Rightarrow> socket_id \<Rightarrow> SocketUser \<Rightarrow> UserRow \<Rightarrow> RoomRow \<Rightarrow> string \<Rightarrow> State" where
  "participants_insert now s sid user recipient room content =
     (case insert_roomParticipants (directParticipants now user recipient room) (db s) of
        None \<Rightarrow> emit sid (ErrorEv ''Failed to send private message'') s
      | Some d2 \<Rightarrow>
          wait (AwaitSend sid user (directMessage room content)
                  (PrivateMessage room (dmRoomName (su_username user) (user_username recipient))
                     (user_id recipient)))
            (s\<lparr>db := d2\<rparr>))"

fun resume :: "timestamp \<Rightarrow> Task \<Rightarrow> State \<Rightarrow> State" where
  "resume now (AwaitRoom sid user recipient content) s = room_select s sid user recipient content"
| "resume now (AwaitRoomInsert sid user recipient content) s =
     room_insert s sid user recipient content"
| "resume now (AwaitParticipants sid user recipient room content) s =
     participants_insert now s sid user recipient room content"
| "resume now (AwaitSend sid user data caller) s = send_select s sid user data caller"
| "resume now (AwaitInsert sid user data caller) s = send_insert now s sid user data caller"
| "resume now (AwaitEmit user m caller) s = send_emit s user m caller"
| "resume now (AwaitNotify user room roomName recipientId) s =
     notifyRecipients user room roomName recipientId s"

subsection \<open>Presence, typing and reactions\<close>

definition getOnlineUsersInRoom :: "State \<Rightarrow> int \<Rightarrow> SocketUser list" where
  "getOnlineUsersInRoom s roomId =
     concat (map (\<lambda>socketId. case connectedUsers s socketId of None \<Rightarrow> [] | Some user \<Rightarrow> [user])
                 (roomSockets s roomId))"

definition on_get_online_users :: "State \<Rightarrow> socket_id \<Rightarrow> int \<Rightarrow> State" where
  "on_get_online_users s sid roomId = emit sid (OnlineUsers roomId (getOnlineUsersInRoom s roomId)) s"

definition on_typing_start :: "State \<Rightarrow> socket_id \<Rightarrow> SocketUser \<Rightarrow> int \<Rightarrow> State" where
  "on_typing_start s sid user roomId = socket_to_emit sid roomId (UserTyping (su_id user) roomId) s"

definition on_typing_stop :: "State \<Rightarrow> socket_id \<Rightarrow> SocketUser \<Rightarrow> int \<Rightarrow> State" where
  "on_typing_stop s sid user roomId =
     socket_to_emit sid roomId (UserStopTyping (su_id user) roomId) s"

definition on_toggle_reaction ::
  "State \<Rightarrow> socket_id \<Rightarrow> SocketUser \<Rightarrow> int \<Rightarrow> string \<Rightarrow> State" where
  "on_toggle_reaction s sid user messageId emoji =
     fold (\<lambda>room. socket_to_emit sid room (ReactionUpdated messageId emoji (su_id user)))
          (socketRooms s sid) s"

section \<open>The REST routes\<close>

record Response =
  res_status :: nat
  res_success :: bool
  res_message :: string

definition respond :: "nat \<Rightarrow> bool \<Rightarrow> string \<Rightarrow> Response" where
  "respond st ok msg = \<lparr>res_status = st, res_success = ok, res_message = msg\<rparr>"

record CreateBody =
  cb_name :: string
  cb_description :: "string option"
  cb_type :: "string option"
  cb_maxParticipants :: "int option"

text \<open>The three \<^verbatim>\<open>express-validator\<close> chains of \<^verbatim>\<open>POST /rooms\<close>.\<close>

definition validationResult :: "CreateBody \<Rightarrow> bool" where
  "validationResult body =
     (1 \<le> length (cb_name body) \<and> length (cb_name body) \<le> 255
      \<and> (case cb_description body of None \<Rightarrow> True | Some t \<Rightarrow> length t \<le> 1000)
      \<and> (case cb_type body of None \<Rightarrow> True | Some t \<Rightarrow> t = ''public'' \<or> t = ''private''))"

text \<open>
  \<^verbatim>\<open>POST /rooms\<close>. The handler awaits two storage statements, the insert of the room (number 0)
  and the insert of the creator's participant row (number 1), inside one \<^verbatim>\<open>try/catch\<close> and
  outside any transaction. The argument \<open>throws\<close> names the statement that the storage layer
  fails, if any (a value that the table does not take, a lost connection); a statement that
  throws leaves what earlier statements wrote.
\<close>

definition createRoom ::
  "nat option \<Rightarrow> timestamp \<Rightarrow> int \<Rightarrow> CreateBody \<Rightarrow> Db \<Rightarrow> Response \<times> Db" where
  "createRoom throws now userId body d =
     (if \<not> validationResult body then (respond 400 False ''Validation failed'', d)
      else if throws = Some 0 then (respond 500 False ''Internal server error'', d)
      else
        (let (newRoom, d1) =
               insert_chatRooms
                 \<lparr>room_id = 0, room_name = cb_name body,
                  room_description = cb_description body,
                  room_type = (case cb_type body of None \<Rightarrow> ''public'' | Some t \<Rightarrow> t),
                  room_createdBy = userId, room_isActive = True,
                  room_maxParticipants =
                    (case cb_maxParticipants body of None \<Rightarrow> 50 | Some n \<Rightarrow> n)\<rparr> d
         in if throws = Some 1 then (respond 500 False ''Internal server error'', d1)
            else (case insert_roomParticipants
                         [\<lparr>p_id = 0, p_userId = userId, p_roomId = room_id newRoom,
                           p_role = ''admin'', p_joinedAt = now, p_lastSeenAt = None,
                           p_isActive = True\<rparr>] d1 of
                    None \<Rightarrow> (respond 500 False ''Internal server error'', d1)
                  | Some d2 \<Rightarrow> (respond 201 True ''Chat room created successfully'', d2))))"

text \<open>
  \<^verbatim>\<open>POST /rooms/:id/join\<close>; the route parameter is given as the result of \<^verbatim>\<open>parseInt\<close>, with
  \<^const>\<open>None\<close> for \<^verbatim>\<open>NaN\<close>. A statement that throws is answered by the \<^verbatim>\<open>catch\<close> of the route
  with status 500. The capacity check selects the column \<^verbatim>\<open>roomParticipants.id\<close>
  under the name \<^verbatim>\<open>count\<close> and destructures the first row of the result: \<^verbatim>\<open>count\<close> is the
  id of the first active participant row of the room, and the destructuring throws when the
  room has no active participant.
\<close>

definition joinRoom :: "timestamp \<Rightarrow> int \<Rightarrow> int option \<Rightarrow> Db \<Rightarrow> Response \<times> Db" where
  "joinRoom now userId param d =
     (case param of
        None \<Rightarrow> (respond 400 False ''Invalid room ID'', d)
      | Some roomId \<Rightarrow>
          if \<not> int4 roomId then (respond 500 False ''Internal server error'', d)
          else
          (case find (\<lambda>r. room_id r = roomId \<and> room_isActive r) (chatRooms d) of
             None \<Rightarrow> (respond 404 False ''Room not found'', d)
           | Some room \<Rightarrow>
               (case find (\<lambda>p. p_userId p = userId \<and> p_roomId p = roomId)
                          (roomParticipants d) of
                  Some existingParticipant \<Rightarrow>
                    (respond 200 True ''Successfully joined the room'',
                     if \<not> p_isActive existingParticipant
                     then update_roomParticipants
                            (\<lambda>p. p_userId p = userId \<and> p_roomId p = roomId)
                            (\<lambda>p. p\<lparr>p_isActive := True, p_joinedAt := now\<rparr>) d
                     else d)
                | None \<Rightarrow>
                    (case filter (\<lambda>p. p_roomId p = roomId \<and> p_isActive p)
                                 (roomParticipants d) of
                       [] \<Rightarrow> (respond 500 False ''Internal server error'', d)
                     | row # _ \<Rightarrow>
                         (let count = p_id row in
                          if count \<ge> room_maxParticipants room
                          then (respond 400 False ''Room is at maximum capacity'', d)
                          else (case insert_roomParticipants
                                       [\<lparr>p_id = 0, p_userId = userId, p_roomId = roomId,
                                         p_role = ''member'', p_joinedAt = now,
                                         p_lastSeenAt = None, p_isActive = True\<rparr>] d of
                                  None \<Rightarrow> (respond 500 False ''Internal server error'', d)
                                | Some d' \<Rightarrow>
                                    (respond 200 True ''Successfully joined the room'', d')))))))"

text \<open>\<^verbatim>\<open>POST /rooms/:id/leave\<close>.\<close>

definition leaveRoom :: "int \<Rightarrow> int option \<Rightarrow> Db \<Rightarrow> Response \<times> Db" where
  "leaveRoom userId param d =
     (case param of
        None \<Rightarrow> (respond 400 False ''Invalid room ID'', d)
      | Some roomId \<Rightarrow>
          if \<not> int4 roomId then (respond 500 False ''Internal server error'', d)
          else
            (respond 200 True ''Successfully left the room'',
             update_roomParticipants (\<lambda>p. p_userId p = userId \<and> p_roomId p = roomId)
               (\<lambda>p. p\<lparr>p_isActive := False\<rparr>) d))"

text \<open>
  \<^verbatim>\<open>PATCH /profile\<close> of \<^verbatim>\<open>src/routes/users.ts\<close>, reduced to the \<^verbatim>\<open>username\<close> field of its body
  (\<^const>\<open>None\<close> for a body without fields): the validator wants 3 to 30 letters or digits, a name
  that another user bears is refused, and the row of the caller is rewritten.
\<close>

definition alphanumeric :: "string \<Rightarrow> bool" where
  "alphanumeric t \<longleftrightarrow>
     t \<noteq> [] \<and> list_all (\<lambda>c. c \<in> set ''0123456789abcdefghijklmnopqrstuvwxyzABCDEFGHIJKLMNOPQRSTUVWXYZ'') t"

definition patchProfile :: "int \<Rightarrow> string option \<Rightarrow> Db \<Rightarrow> Response \<times> Db" where
  "patchProfile userId username d =
     (case username of
        None \<Rightarrow> (respond 400 False ''No valid fields to update'', d)
      | Some name \<Rightarrow>
          if \<not> (3 \<le> length name \<and> length name \<le> 30 \<and> alphanumeric name)
          then (respond 400 False ''Validation failed'', d)
          else if find (\<lambda>u. user_username u = name \<and> user_id u \<noteq> userId) (users d) \<noteq> None
          then (respond 409 False ''Username already taken'', d)
          else (respond 200 True ''Profile updated successfully'',
                d\<lparr>users := map (\<lambda>u. if user_id u = userId then u\<lparr>user_username := name\<rparr> else u)
                                (users d)\<rparr>))"

section \<open>Runs of the server\<close>

text \<open>
  What can happen to the server: a socket connects or disconnects, a connected socket sends
  one of its events, a waiting call goes on (\<open>Resume k\<close>, the call at position \<open>k\<close> of
  \<^const>\<open>tasks\<close>), or an authenticated user calls one of the REST routes.
  Socket.IO gives every connection an id no live socket has, and runs the handlers of a socket
  with the \<^verbatim>\<open>user\<close> that was stored when it connected; an action that breaks this, or that
  names no waiting call, is ignored.
\<close>

datatype Action =
    Connect socket_id SocketUser
  | Disconnect socket_id
  | JoinRoom socket_id int
  | LeaveRoom socket_id int
  | SendMessage socket_id SendData
  | Resume nat
  | SendPrivateMessage socket_id int string
  | TypingStart socket_id int
  | TypingStop socket_id int
  | ToggleReaction socket_id int string
  | GetOnlineUsers socket_id int
  | PostRooms "nat option" int CreateBody
  | PostJoin int "int option"
  | PostLeave int "int option"
  | PatchProfile int "string option"

definition on_socket :: "State \<Rightarrow> socket_id \<Rightarrow> (SocketUser \<Rightarrow> State) \<Rightarrow> State" where
  "on_socket s sid handler = (case connectedUsers s sid of None \<Rightarrow> s | Some user \<Rightarrow> handler user)"

fun step :: "timestamp \<Rightarrow> Action \<Rightarrow> State \<Rightarrow> State" where
  "step now (Connect sid user) s =
     (case connectedUsers s sid of None \<Rightarrow> connection s sid user | Some _ \<Rightarrow> s)"
| "step now (Disconnect sid) s = on_socket s sid (\<lambda>user. disconnect s sid user)"
| "step now (JoinRoom sid roomId) s = on_socket s sid (\<lambda>user. on_join_room now s sid user roomId)"
| "step now (LeaveRoom sid roomId) s =
     on_socket s sid (\<lambda>user. on_leave_room now s sid user roomId)"
| "step now (SendMessage sid data) s =
     on_socket s sid (\<lambda>user. send_select s sid user data Listener)"
| "step now (Resume k) s =
     (if k < length (tasks s)
      then resume now (tasks s ! k) (s\<lparr>tasks := take k (tasks s) @ drop (Suc k) (tasks s)\<rparr>)
      else s)"
| "step now (SendPrivateMessage sid recipientId content) s =
     on_socket s sid (\<lambda>user. private_message_select s sid user recipientId content)"
| "step now (TypingStart sid roomId) s = on_socket s sid (\<lambda>user. on_typing_start s sid user roomId)"
| "step now (TypingStop sid roomId) s = on_socket s sid (\<lambda>user. on_typing_stop s sid user roomId)"
| "step now (ToggleReaction sid messageId emoji) s =
     on_socket s sid (\<lambda>user. on_toggle_reaction s sid user messageId emoji)"
| "step now (GetOnlineUsers sid roomId) s =
     on_socket s sid (\<lambda>user. on_get_online_users s sid roomId)"
| "step now (PostRooms throws userId body) s = s\<lparr>db := snd (createRoom throws now userId body (db s))\<rparr>"
| "step now (PostJoin userId param) s = s\<lparr>db := snd (joinRoom now userId param (db s))\<rparr>"
| "step now (PostLeave userId param) s = s\<lparr>db := snd (leaveRoom userId param (db s))\<rparr>"
| "step now (PatchProfile userId username) s =
     s\<lparr>db := snd (patchProfile userId username (db s))\<rparr>"

definition run :: "(timestamp \<times> Action) list \<Rightarrow> State \<Rightarrow> State" where
  "run acts s = foldl (\<lambda>st (now, a). step now a st) s acts"

definition init :: "UserRow list \<Rightarrow> State" where
  "init us =
     \<lparr>db = \<lparr>users = us, chatRooms = [], roomParticipants = [], chatMessages = [],
             chatRooms_seq = 1, roomParticipants_seq = 1, chatMessages_seq = 1\<rparr>,
      connectedUsers = Map.empty, userRooms = Map.empty, joined = [], outbox = (\<lambda>c. []),
      tasks = []\<rparr>"

section \<open>Observations\<close>

text \<open>
  The active members of a room, as the source queries them (\<^verbatim>\<open>getRoomInfo\<close>, the capacity
  check of the join route): the participant rows of the room with \<^verbatim>\<open>isActive = true\<close>.
\<close>

definition listActiveMembers :: "Db \<Rightarrow> int \<Rightarrow> int list" where
  "listActiveMembers d roomId =
     map p_userId (filter (\<lambda>p. p_roomId p = roomId \<and> p_isActive p) (roomParticipants d))"

text \<open>The membership test of \<^const>\<open>handleSendMessage\<close>.\<close>

definition activeMember :: "Db \<Rightarrow> int \<Rightarrow> int \<Rightarrow> bool" where
  "activeMember d userId roomId =
     list_ex (\<lambda>p. p_roomId p = roomId \<and> p_userId p = userId \<and> p_isActive p)
       (roomParticipants d)"

text \<open>The two lookups of \<^const>\<open>handleJoinRoom\<close>.\<close>

definition membershipRow :: "Db \<Rightarrow> int \<Rightarrow> int \<Rightarrow> ParticipantRow option" where
  "membershipRow d userId roomId =
     find (\<lambda>p. p_roomId p = roomId \<and> p_userId p = userId) (roomParticipants d)"




text \<open>The chat messages a socket has received, in the order of their arrival.\<close>

fun newMessageOf :: "Event \<Rightarrow> ChatMessage list" where
  "newMessageOf (NewMessage m) = [m]"
| "newMessageOf _ = []"

definition received :: "State \<Rightarrow> socket_id \<Rightarrow> ChatMessage list" where
  "received s c = concat (map newMessageOf (outbox s c))"

text \<open>
  The row that a \<^verbatim>\<open>send-message\<close> call stores for a payload in the database \<open>d\<close>, the
  message it fans out, and the payloads that the message table takes.
\<close>

definition messageRow :: "timestamp \<Rightarrow> Db \<Rightarrow> SocketUser \<Rightarrow> SendData \<Rightarrow> MessageRow" where
  "messageRow now d user data =
     \<lparr>m_id = chatMessages_seq d, m_content = sd_content data, m_type = or_text (sd_type data),
      m_senderId = su_id user, m_roomId = sd_roomId data, m_replyToId = sd_replyToId data,
      m_isEdited = False, m_isDeleted = False, m_createdAt = now\<rparr>"

definition chatMessageOf :: "timestamp \<Rightarrow> Db \<Rightarrow> SocketUser \<Rightarrow> SendData \<Rightarrow> ChatMessage" where
  "chatMessageOf now d user data =
     \<lparr>cm_id = chatMessages_seq d, cm_content = sd_content data,
      cm_type = or_text (sd_type data), cm_senderId = su_id user,
      cm_senderUsername = su_username user, cm_roomId = sd_roomId data,
      cm_replyToId = or_undefined (sd_replyToId data), cm_createdAt = now\<rparr>"

definition storable :: "SendData \<Rightarrow> bool" where
  "storable data \<longleftrightarrow>
     text_value (sd_content data)
     \<and> text_value (or_text (sd_type data)) \<and> length (or_text (sd_type data)) \<le> 20
     \<and> int4 (sd_roomId data)
     \<and> (case sd_replyToId data of None \<Rightarrow> True | Some r \<Rightarrow> int4 r)
     \<and> sd_metadata data \<noteq> Some Unstorable"

definition withMessage :: "MessageRow \<Rightarrow> Db \<Rightarrow> Db" where
  "withMessage row d =
     d\<lparr>chatMessages := chatMessages d @ [row], chatMessages_seq := chatMessages_seq d + 1\<rparr>"

text \<open>
  The rows that the handlers insert, with the ids the sequences give them, and the database
  after the insert of one row: the room and the admin row of \<^const>\<open>createRoom\<close>, the member
  row of \<^const>\<open>handleJoinRoom\<close>, and the update of \<^const>\<open>handleJoinRoom\<close> on an existing row.
\<close>

definition newRoomRow :: "int \<Rightarrow> CreateBody \<Rightarrow> Db \<Rightarrow> RoomRow" where
  "newRoomRow userId body d =
     \<lparr>room_id = chatRooms_seq d, room_name = cb_name body,
      room_description = cb_description body,
      room_type = (case cb_type body of None \<Rightarrow> ''public'' | Some t \<Rightarrow> t),
      room_createdBy = userId, room_isActive = True,
      room_maxParticipants = (case cb_maxParticipants body of None \<Rightarrow> 50 | Some n \<Rightarrow> n)\<rparr>"

definition adminRow :: "timestamp \<Rightarrow> int \<Rightarrow> Db \<Rightarrow> ParticipantRow" where
  "adminRow now userId d =
     \<lparr>p_id = roomParticipants_seq d, p_userId = userId, p_roomId = chatRooms_seq d,
      p_role = ''admin'', p_joinedAt = now, p_lastSeenAt = None, p_isActive = True\<rparr>"


definition withRoom :: "RoomRow \<Rightarrow> Db \<Rightarrow> Db" where
  "withRoom row d = d\<lparr>chatRooms := chatRooms d @ [row], chatRooms_seq := chatRooms_seq d + 1\<rparr>"

definition withParticipant :: "ParticipantRow \<Rightarrow> Db \<Rightarrow> Db" where
  "withParticipant row d =
     d\<lparr>roomParticipants := roomParticipants d @ [row],
       roomParticipants_seq := roomParticipants_seq d + 1\<rparr>"

definition seen :: "timestamp \<Rightarrow> ParticipantRow \<Rightarrow> Db \<Rightarrow> Db" where
  "seen now participant d =
     update_roomParticipants (\<lambda>p. p_id p = p_id participant)
       (\<lambda>p. p\<lparr>p_lastSeenAt := Some now, p_isActive := True\<rparr>) d"


text \<open>
  The lookup of \<^verbatim>\<open>handlePrivateMessage\<close> for a sender's and a recipient's username, and the
  rooms of type \<^verbatim>\<open>direct\<close>.
\<close>

definition directRoom :: "Db \<Rightarrow> string \<Rightarrow> string \<Rightarrow> RoomRow option" where
  "directRoom d senderName recipientName =
     find (\<lambda>r. room_name r = dmRoomName senderName recipientName \<and> room_type r = ''direct'')
       (chatRooms d)"


text \<open>
  The two registries agree: a registered socket is listed under the id of its user, and
  every entry of \<^verbatim>\<open>userRooms\<close> is a non-empty, duplicate-free list of registered sockets
  of that user.
\<close>

definition registry_ok ::
  "(socket_id \<rightharpoonup> SocketUser) \<Rightarrow> (int \<rightharpoonup> socket_id list) \<Rightarrow> bool" where
  "registry_ok cu ur \<longleftrightarrow>
     (\<forall>sid user. cu sid = Some user \<longrightarrow> (\<exists>ids. ur (su_id user) = Some ids \<and> sid \<in> set ids))
     \<and> (\<forall>uid ids. ur uid = Some ids \<longrightarrow>
           ids \<noteq> [] \<and> distinct ids
           \<and> (\<forall>sid \<in> set ids. \<exists>user. cu sid = Some user \<and> su_id user = uid))"

definition registry_consistent :: "State \<Rightarrow> bool" where
  "registry_consistent s = registry_ok (connectedUsers s) (userRooms s)"


text \<open>
  The messages that are stored and not yet broadcast: those of the calls that wait between
  their \<^verbatim>\<open>INSERT\<close> and their broadcast.
\<close>

fun pendingEmit :: "Task \<Rightarrow> ChatMessage list" where
  "pendingEmit (AwaitEmit user m caller) = [m]"
| "pendingEmit _ = []"

definition pendingEmits :: "State \<Rightarrow> ChatMessage list" where
  "pendingEmits s = concat (map pendingEmit (tasks s))"







text \<open>
  The three kinds of steps: a step that stores and delivers no chat message; a step that
  stores a row and lets its message wait; and a step that broadcasts a waiting message.
\<close>

definition quiet :: "State \<Rightarrow> State \<Rightarrow> bool" where
  "quiet s s' \<longleftrightarrow>
     chatMessages (db s') = chatMessages (db s)
     \<and> chatMessages_seq (db s') = chatMessages_seq (db s)
     \<and> (\<forall>c. received s' c = received s c)
     \<and> pendingEmits s' = pendingEmits s"

definition message_of :: "Db \<Rightarrow> MessageRow \<Rightarrow> ChatMessage \<Rightarrow> bool" where
  "message_of d row m \<longleftrightarrow>
     m_id row = chatMessages_seq d \<and> cm_id m = m_id row \<and> cm_roomId m = m_roomId row
     \<and> cm_content m = m_content row \<and> cm_senderId m = m_senderId row"

definition stores :: "State \<Rightarrow> State \<Rightarrow> bool" where
  "stores s s' \<longleftrightarrow>
     (\<exists>row m. message_of (db s) row m
        \<and> chatMessages (db s') = chatMessages (db s) @ [row]
        \<and> chatMessages_seq (db s') = chatMessages_seq (db s) + 1
        \<and> (\<forall>c. received s' c = received s c)
        \<and> pendingEmits s' = pendingEmits s @ [m])"

definition emits :: "State \<Rightarrow> State \<Rightarrow> bool" where
  "emits s s' \<longleftrightarrow>
     (\<exists>m xs ys. pendingEmits s = xs @ m # ys \<and> pendingEmits s' = xs @ ys
        \<and> chatMessages (db s') = chatMessages (db s)
        \<and> chatMessages_seq (db s') = chatMessages_seq (db s)
        \<and> (\<forall>c. received s' c = received s c \<or> received s' c = received s c @ [m]))"

section \<open>Scenarios\<close>

text \<open>Three users, a public room of capacity 10 and one of capacity 2.\<close>

definition alice :: SocketUser where
  "alice = \<lparr>su_id = 1, su_username = ''alice'', su_role = ''user''\<rparr>"

definition bob :: SocketUser where
  "bob = \<lparr>su_id = 2, su_username = ''bob'', su_role = ''user''\<rparr>"

definition carol :: SocketUser where
  "carol = \<lparr>su_id = 3, su_username = ''carol'', su_role = ''user''\<rparr>"


definition directory :: "UserRow list" where
  "directory = [\<lparr>user_id = 1, user_username = ''alice''\<rparr>,
                \<lparr>user_id = 2, user_username = ''bob''\<rparr>,
                \<lparr>user_id = 3, user_username = ''carol''\<rparr>]"

definition general :: CreateBody where
  "general = \<lparr>cb_name = ''general'', cb_description = None, cb_type = None,
              cb_maxParticipants = Some 10\<rparr>"

definition pair_room :: CreateBody where
  "pair_room = \<lparr>cb_name = ''pair'', cb_description = None, cb_type = None,
                cb_maxParticipants = Some 2\<rparr>"

definition say :: "int \<Rightarrow> string \<Rightarrow> SendData" where
  "say roomId text = \<lparr>sd_roomId = roomId, sd_content = text, sd_type = None, sd_replyToId = None,
                      sd_metadata = None\<rparr>"


text \<open>
  Alice creates the room ``general'' (room 1), Bob joins it over REST, and the three users
  connect; Alice and Bob subscribe their sockets to the room.
\<close>

definition arrivals :: "(timestamp \<times> Action) list" where
  "arrivals = [(1, PostRooms None 1 general), (2, PostJoin 2 (Some 1)),
               (3, Connect ''sa'' alice), (4, Connect ''sb'' bob), (5, Connect ''sc'' carol),
               (6, JoinRoom ''sa'' 1), (7, JoinRoom ''sb'' 1)]"

definition lobby :: State where
  "lobby = run arrivals (init directory)"





text \<open>Alice creates two rooms, the second of capacity 2.\<close>

definition two_rooms :: Db where
  "two_rooms = db (run [(1, PostRooms None 1 general), (2, PostRooms None 1 pair_room)]
                      (init directory))"

text \<open>Alice creates a room of capacity 2 and Bob joins it.\<close>

definition full_pair :: Db where
  "full_pair = db (run [(1, PostRooms None 1 pair_room), (2, PostJoin 2 (Some 1))]
                      (init directory))"









text \<open>Alice connects twice, Bob once, and Alice's first socket disconnects.\<close>

definition comings :: "(timestamp \<times> Action) list" where
  "comings = [(1, Connect ''sa'' alice), (2, Connect ''sa2'' alice), (3, Connect ''sb'' bob),
              (4, Disconnect ''sa'')]"


section \<open>Basic facts\<close>

lemma emitAll_fields [simp]:
  "db (emitAll ts e s) = db s"
  "connectedUsers (emitAll ts e s) = connectedUsers s"
  "userRooms (emitAll ts e s) = userRooms s"
  "joined (emitAll ts e s) = joined s"
  "tasks (emitAll ts e s) = tasks s"
  "outbox (emitAll ts e s) c = (if c \<in> set ts then outbox s c @ [e] else outbox s c)"
  by (simp_all add: emitAll_def)

lemma roomSockets_emitAll [simp]: "roomSockets (emitAll ts e s) R = roomSockets s R"
  by (simp add: roomSockets_def)

lemma roomSockets_db_update [simp]: "roomSockets (s\<lparr>db := d\<rparr>) R = roomSockets s R"
  by (simp add: roomSockets_def)

lemma roomSockets_tasks_update [simp]: "roomSockets (s\<lparr>tasks := ts\<rparr>) R = roomSockets s R"
  by (simp add: roomSockets_def)

lemma activeMember_find:
  "activeMember d userId roomId \<longleftrightarrow>
     find (\<lambda>p. p_roomId p = roomId \<and> p_userId p = userId \<and> p_isActive p)
       (roomParticipants d) \<noteq> None"
  by (auto simp: activeMember_def list_ex_iff find_None_iff)

lemma storable_accepts:
  "chatMessages_accepts (messageValues now user data) (sd_metadata data) \<longleftrightarrow> storable data"
  by (auto simp: chatMessages_accepts_def messageValues_def storable_def)

lemma insert_chatMessages_storable:
  "insert_chatMessages (messageValues now user data) (sd_metadata data) d =
     (if storable data then Some (messageRow now d user data, withMessage (messageRow now d user data) d)
      else None)"
  unfolding insert_chatMessages_def storable_accepts
  by (simp add: messageValues_def messageRow_def withMessage_def Let_def)

lemma chatMessage_messageRow:
  "chatMessage user data (messageRow now d user data) = chatMessageOf now d user data"
  by (simp add: chatMessage_def messageRow_def chatMessageOf_def)

lemma handleSendMessage_member:
  assumes "activeMember (db s) (su_id user) (sd_roomId data)"
  shows "handleSendMessage now s sid user data =
           (if storable data
            then Inr (io_to_emit (sd_roomId data) (NewMessage (chatMessageOf now (db s) user data))
                        (s\<lparr>db := withMessage (messageRow now (db s) user data) (db s)\<rparr>))
            else Inl s)"
proof -
  obtain p where
    "find (\<lambda>p. p_roomId p = sd_roomId data \<and> p_userId p = su_id user \<and> p_isActive p)
       (roomParticipants (db s)) = Some p"
    using assms by (auto simp: activeMember_find)
  then show ?thesis
    by (simp add: handleSendMessage_def insert_chatMessages_storable chatMessage_messageRow)
      (simp add: storable_def)
qed

lemma send_select_member:
  assumes "activeMember (db s) (su_id user) (sd_roomId data)"
  shows "send_select s sid user data caller =
           (if int4 (sd_roomId data)
            then s\<lparr>tasks := tasks s @ [AwaitInsert sid user data caller]\<rparr>
            else emit sid (ErrorEv (failed caller)) s)"
proof -
  obtain p where
    "find (\<lambda>p. p_roomId p = sd_roomId data \<and> p_userId p = su_id user \<and> p_isActive p)
       (roomParticipants (db s)) = Some p"
    using assms by (auto simp: activeMember_find)
  then show ?thesis
    by (simp add: send_select_def wait_def)
qed

lemma send_insert_storable:
  "send_insert now s sid user data caller =
     (if storable data
      then s\<lparr>db := withMessage (messageRow now (db s) user data) (db s),
             tasks := tasks s @ [AwaitEmit user (chatMessageOf now (db s) user data) caller]\<rparr>
      else emit sid (ErrorEv (failed caller)) s)"
  by (simp add: send_insert_def insert_chatMessages_storable chatMessage_messageRow wait_def)

lemma received_db_update [simp]: "received (s\<lparr>db := d\<rparr>) c = received s c"
  by (simp add: received_def)

lemma received_tasks_update [simp]: "received (s\<lparr>tasks := ts\<rparr>) c = received s c"
  by (simp add: received_def)


lemma handleSendMessage_not_member:
  assumes "\<not> activeMember (db s) (su_id user) (sd_roomId data)"
  shows "handleSendMessage now s sid user data
           = (if int4 (sd_roomId data)
              then Inr (emit sid (ErrorEv ''You are not a member of this room'') s)
              else Inl s)"
  using assms by (simp add: activeMember_find handleSendMessage_def)

lemma send_select_not_member:
  assumes "\<not> activeMember (db s) (su_id user) (sd_roomId data)"
  shows "send_select s sid user data caller
           = (if int4 (sd_roomId data)
              then returned caller user (emit sid (ErrorEv ''You are not a member of this room'') s)
              else emit sid (ErrorEv (failed caller)) s)"
  using assms by (simp add: activeMember_find send_select_def)

text \<open>
  The parts of the \<^verbatim>\<open>send-message\<close> listener, run one after the other with nothing in
  between, are the listener as \<^const>\<open>on_send_message\<close> has it.
\<close>

lemma run_nil [simp]: "run [] s = s"
  by (simp add: run_def)

lemma run_cons [simp]: "run ((now, a) # acts) s = run acts (step now a s)"
  by (simp add: run_def)

lemma take_drop_last [simp]: "take (length xs) (xs @ [x]) @ drop (Suc (length xs)) (xs @ [x]) = xs"
  by simp

lemma state_tasks_same [simp]: "s\<lparr>tasks := tasks s\<rparr> = s"
  by simp

lemma send_message_uninterrupted:
  assumes "connectedUsers s sid = Some user"
  shows "run [(now, SendMessage sid data), (now, Resume (length (tasks s))),
              (now, Resume (length (tasks s)))] s
           = on_send_message now s sid user data"
proof (cases "activeMember (db s) (su_id user) (sd_roomId data)")
  case False
  then show ?thesis
    using assms
    by (simp add: on_socket_def send_select_not_member handleSendMessage_not_member
        on_send_message_def emit_def)
next
  case True
  show ?thesis
  proof (cases "storable data")
    case False
    then show ?thesis
      using assms True
      by (cases "int4 (sd_roomId data)")
        (simp_all add: on_socket_def send_select_member handleSendMessage_member
          on_send_message_def send_insert_storable emit_def)
  next
    case st: True
    then have "int4 (sd_roomId data)"
      by (simp add: storable_def)
    then show ?thesis
      using assms True st
      by (simp add: on_socket_def send_select_member handleSendMessage_member
          on_send_message_def send_insert_storable send_emit_def chatMessageOf_def
          io_to_emit_def emitAll_def roomSockets_def)
  qed
qed



subsection \<open>The scenario state\<close>

lemma lobby_db:
  "db lobby =
     \<lparr>users = directory,
      chatRooms = [\<lparr>room_id = 1, room_name = ''general'', room_description = None,
                    room_type = ''public'', room_createdBy = 1, room_isActive = True,
                    room_maxParticipants = 10\<rparr>],
      roomParticipants =
        [\<lparr>p_id = 1, p_userId = 1, p_roomId = 1, p_role = ''admin'', p_joinedAt = 1,
          p_lastSeenAt = Some 6, p_isActive = True\<rparr>,
         \<lparr>p_id = 2, p_userId = 2, p_roomId = 1, p_role = ''member'', p_joinedAt = 2,
          p_lastSeenAt = Some 7, p_isActive = True\<rparr>],
      chatMessages = [], chatRooms_seq = 2, roomParticipants_seq = 3, chatMessages_seq = 1\<rparr>"
  by code_simp


lemma lobby_tasks: "tasks lobby = []"
  by code_simp

lemma lobby_outbox:
  "outbox lobby ''sa'' = [UserInfo alice [1], ErrorEv ''Failed to join room'']"
  "outbox lobby ''sb'' = [UserInfo bob [1], ErrorEv ''Failed to join room'']"
  "outbox lobby ''sc'' = [UserInfo carol []]"
  by code_simp+

lemma lobby_connected:
  "connectedUsers lobby ''sa'' = Some alice"
  "connectedUsers lobby ''sb'' = Some bob"
  "connectedUsers lobby ''sc'' = Some carol"
  by code_simp+

section \<open>Sending without membership\<close>

text \<open>
  Claim C4. For every identity \<open>u\<close> and room \<open>R\<close> such that \<open>u\<close> has no active membership in
  \<open>R\<close>, sending to \<open>R\<close> fails with the error ``You are not a member of this room'' and leaves
  the message store unchanged: the listener ends at its membership check, it only appends
  that error to the outbox of the calling socket, the database and the subscriptions are as
  before, no call is left waiting for the database, and no socket receives a chat message.
  A room id is a value of the \<^verbatim>\<open>serial\<close> column of \<^verbatim>\<open>chat_rooms\<close>; for a number outside the
  range of that column, which is the id of no room, the membership query throws and the error
  is ``Failed to send message'', with the same unchanged store.
\<close>

theorem send_not_a_member:
  assumes "connectedUsers s sid = Some user"
    and "\<not> activeMember (db s) (su_id user) (sd_roomId data)"
  shows "(int4 (sd_roomId data) \<longrightarrow>
            step now (SendMessage sid data) s
              = emit sid (ErrorEv ''You are not a member of this room'') s)
         \<and> (\<not> int4 (sd_roomId data) \<longrightarrow>
            step now (SendMessage sid data) s = emit sid (ErrorEv ''Failed to send message'') s)
         \<and> on_send_message now s sid user data = step now (SendMessage sid data) s
         \<and> db (step now (SendMessage sid data) s) = db s
         \<and> joined (step now (SendMessage sid data) s) = joined s
         \<and> tasks (step now (SendMessage sid data) s) = tasks s
         \<and> (\<forall>c. c \<noteq> sid \<longrightarrow> outbox (step now (SendMessage sid data) s) c = outbox s c)
         \<and> (\<forall>c. received (step now (SendMessage sid data) s) c = received s c)"
  using assms
  by (simp add: on_socket_def send_select_not_member handleSendMessage_not_member
      on_send_message_def emit_def received_def)

text \<open>
  Carol, who never joined room 1, sends ``hi'' to it, and to the number 2147483648.
\<close>

theorem send_not_a_member_witness:
  "connectedUsers lobby ''sc'' = Some carol
   \<and> \<not> activeMember (db lobby) (su_id carol) (sd_roomId (say 1 ''hi''))
   \<and> \<not> activeMember (db lobby) (su_id carol) (sd_roomId (say 2147483648 ''hi''))
   \<and> chatMessages (db (step 8 (SendMessage ''sc'' (say 1 ''hi'')) lobby)) = []
   \<and> tasks (step 8 (SendMessage ''sc'' (say 1 ''hi'')) lobby) = []
   \<and> outbox (step 8 (SendMessage ''sc'' (say 1 ''hi'')) lobby) ''sc''
        = [UserInfo carol [], ErrorEv ''You are not a member of this room'']
   \<and> outbox (step 8 (SendMessage ''sc'' (say 1 ''hi'')) lobby) ''sa'' = outbox lobby ''sa''
   \<and> received (step 8 (SendMessage ''sc'' (say 1 ''hi'')) lobby) ''sb'' = []
   \<and> outbox (step 8 (SendMessage ''sc'' (say 2147483648 ''hi'')) lobby) ''sc''
        = [UserInfo carol [], ErrorEv ''Failed to send message'']
   \<and> chatMessages (db (step 8 (SendMessage ''sc'' (say 2147483648 ''hi'')) lobby)) = []"
proof -
  have c: "connectedUsers lobby ''sc'' = Some carol"
    by (rule lobby_connected)
  have h: "\<not> activeMember (db lobby) (su_id carol) (sd_roomId (say 1 ''hi''))"
    by code_simp
  have h': "\<not> activeMember (db lobby) (su_id carol) (sd_roomId (say 2147483648 ''hi''))"
    by code_simp
  have r: "received lobby ''sb'' = []"
    by (simp add: received_def lobby_outbox)
  have i: "int4 (sd_roomId (say 1 ''hi''))" "\<not> int4 (sd_roomId (say 2147483648 ''hi''))"
    by (simp_all add: int4_def say_def)
  have e1: "step 8 (SendMessage ''sc'' (say 1 ''hi'')) lobby
              = emit ''sc'' (ErrorEv ''You are not a member of this room'') lobby"
    using send_not_a_member [OF c h, of 8] i(1) by blast
  have e2: "step 8 (SendMessage ''sc'' (say 2147483648 ''hi'')) lobby
              = emit ''sc'' (ErrorEv ''Failed to send message'') lobby"
    using send_not_a_member [OF c h', of 8] i(2) by blast
  show ?thesis
    unfolding e1 e2 using c h h'
    by (simp add: lobby_db lobby_outbox lobby_tasks r emit_def received_def)
qed

section \<open>Sending as a member\<close>





section \<open>The capacity check of the join route\<close>


text \<open>
  Claim C6: a join by an identity without a membership row fails with ``Room is at maximum
  capacity'' exactly when the number of active members has reached the capacity. The route
  compares the id of the first active participant row with the capacity instead.
  \<^item> In \<^const>\<open>two_rooms\<close> Alice has created two rooms, the second of capacity 2; her
    participant row in it has id 2. Bob's join of room 2 is refused although the room has
    one active member.
  \<^item> In \<^const>\<open>full_pair\<close> a room of capacity 2 has its two active members, whose rows have
    the ids 1 and 2. Carol's join is accepted and the room has three active members.
\<close>

theorem join_capacity_check_reads_row_id:
  "listActiveMembers two_rooms 2 = [1]
   \<and> map room_maxParticipants (filter (\<lambda>r. room_id r = 2) (chatRooms two_rooms)) = [2]
   \<and> membershipRow two_rooms 2 2 = None
   \<and> joinRoom 3 2 (Some 2) two_rooms
        = (respond 400 False ''Room is at maximum capacity'', two_rooms)
   \<and> listActiveMembers full_pair 1 = [1, 2]
   \<and> map room_maxParticipants (filter (\<lambda>r. room_id r = 1) (chatRooms full_pair)) = [2]
   \<and> membershipRow full_pair 3 1 = None
   \<and> fst (joinRoom 3 3 (Some 1) full_pair) = respond 200 True ''Successfully joined the room''
   \<and> listActiveMembers (snd (joinRoom 3 3 (Some 1) full_pair)) 1 = [1, 2, 3]"
  by code_simp

theorem join_capacity_check_reads_row_id_witness:
  "res_status (fst (joinRoom 3 2 (Some 2) two_rooms)) = 400
   \<and> length (listActiveMembers two_rooms 2) = 1
   \<and> length (listActiveMembers (snd (joinRoom 3 3 (Some 1) full_pair)) 1) = 3"
  using join_capacity_check_reads_row_id by (simp add: respond_def)

section \<open>Creating a room\<close>


lemma insert_one_participant:
  assumes "user_room_key v \<notin> set (map user_room_key (roomParticipants d))"
  shows "insert_roomParticipants [v] d
           = Some (withParticipant (v\<lparr>p_id := roomParticipants_seq d\<rparr>) d)"
  using assms
  by (simp add: insert_roomParticipants_def number_rows_def withParticipant_def
      user_room_key_def)

lemma withRoom_fields [simp]:
  "roomParticipants (withRoom r d) = roomParticipants d"
  "roomParticipants_seq (withRoom r d) = roomParticipants_seq d"
  "chatRooms (withRoom r d) = chatRooms d @ [r]"
  "chatRooms_seq (withRoom r d) = chatRooms_seq d + 1"
  "chatMessages (withRoom r d) = chatMessages d"
  "chatMessages_seq (withRoom r d) = chatMessages_seq d"
  "users (withRoom r d) = users d"
  by (simp_all add: withRoom_def)

lemma withParticipant_fields [simp]:
  "roomParticipants (withParticipant p d) = roomParticipants d @ [p]"
  "roomParticipants_seq (withParticipant p d) = roomParticipants_seq d + 1"
  "chatRooms (withParticipant p d) = chatRooms d"
  "chatRooms_seq (withParticipant p d) = chatRooms_seq d"
  "chatMessages (withParticipant p d) = chatMessages d"
  "chatMessages_seq (withParticipant p d) = chatMessages_seq d"
  "users (withParticipant p d) = users d"
  by (simp_all add: withParticipant_def)

lemma insert_chatRooms_withRoom:
  "insert_chatRooms v d = (v\<lparr>room_id := chatRooms_seq d\<rparr>, withRoom (v\<lparr>room_id := chatRooms_seq d\<rparr>) d)"
  by (simp add: insert_chatRooms_def withRoom_def Let_def)


text \<open>
  Claim C7, as amended. The claim has the room and the creator's admin membership created
  atomically. \<^verbatim>\<open>POST /rooms\<close> issues two separate inserts with no transaction around them.
  For a valid body, in a database where no participant row refers to the id the new room
  will get: when no statement fails, the room row and the admin row of the creator are both
  stored and the answer is 201; when the insert of the room fails, nothing is stored; when
  the insert of the participant fails, the room row stays, without any membership, and the
  answer is 500.
\<close>

theorem createRoom_two_statements:
  assumes "validationResult body"
    and "\<forall>p \<in> set (roomParticipants d). p_roomId p \<noteq> chatRooms_seq d"
  shows "createRoom None now userId body d
           = (respond 201 True ''Chat room created successfully'',
              withParticipant (adminRow now userId d) (withRoom (newRoomRow userId body d) d))
         \<and> createRoom (Some 0) now userId body d
             = (respond 500 False ''Internal server error'', d)
         \<and> createRoom (Some 1) now userId body d
             = (respond 500 False ''Internal server error'',
                withRoom (newRoomRow userId body d) d)"
proof -
  let ?admin = "\<lparr>p_id = 0, p_userId = userId, p_roomId = chatRooms_seq d,
                  p_role = ''admin'', p_joinedAt = now, p_lastSeenAt = None,
                  p_isActive = True\<rparr>"
  have "user_room_key ?admin
          \<notin> set (map user_room_key (roomParticipants (withRoom (newRoomRow userId body d) d)))"
    using assms(2) by (auto simp: user_room_key_def)
  from insert_one_participant [OF this]
  have ins: "insert_roomParticipants [?admin] (withRoom (newRoomRow userId body d) d)
               = Some (withParticipant (adminRow now userId d)
                         (withRoom (newRoomRow userId body d) d))"
    by (simp add: adminRow_def)
  show ?thesis
    using assms(1) ins
    by (simp add: createRoom_def insert_chatRooms_withRoom newRoomRow_def)
qed

text \<open>
  Claim C7 as stated fails: the storage layer fails the second insert of a valid request.
  The room ``general'' is in the table and the participant table is empty.
\<close>

theorem createRoom_not_atomic_counterexample:
  "validationResult general
   \<and> res_status (fst (createRoom (Some 1) 1 1 general (db (init directory)))) = 500
   \<and> map room_name (chatRooms (snd (createRoom (Some 1) 1 1 general (db (init directory)))))
        = [''general'']
   \<and> roomParticipants (snd (createRoom (Some 1) 1 1 general (db (init directory)))) = []"
  by code_simp

text \<open>Alice creates ``general'' in the empty database.\<close>

theorem createRoom_two_statements_witness:
  "validationResult general
   \<and> map room_name (chatRooms (snd (createRoom None 1 1 general (db (init directory)))))
        = [''general'']
   \<and> map p_role (roomParticipants (snd (createRoom None 1 1 general (db (init directory)))))
        = [''admin'']
   \<and> map p_userId (roomParticipants (snd (createRoom None 1 1 general (db (init directory)))))
        = [1]
   \<and> snd (createRoom (Some 0) 1 1 general (db (init directory))) = db (init directory)"
proof -
  have v: "validationResult general"
    by code_simp
  have f: "\<forall>p \<in> set (roomParticipants (db (init directory))).
             p_roomId p \<noteq> chatRooms_seq (db (init directory))"
    by (simp add: init_def)
  show ?thesis
    using v createRoom_two_statements [OF v f, of 1 1]
    by (simp add: adminRow_def newRoomRow_def general_def init_def)
qed


section \<open>Subscribing a socket to a room\<close>

lemma socket_join_fields [simp]:
  "db (socket_join sid R s) = db s"
  "connectedUsers (socket_join sid R s) = connectedUsers s"
  "userRooms (socket_join sid R s) = userRooms s"
  "outbox (socket_join sid R s) = outbox s"
  "tasks (socket_join sid R s) = tasks s"
  "joined (socket_join sid R s) = set_add (sid, R) (joined s)"
  by (simp_all add: socket_join_def set_add_def)

lemma socket_leave_fields [simp]:
  "db (socket_leave sid R s) = db s"
  "connectedUsers (socket_leave sid R s) = connectedUsers s"
  "userRooms (socket_leave sid R s) = userRooms s"
  "outbox (socket_leave sid R s) = outbox s"
  "tasks (socket_leave sid R s) = tasks s"
  "joined (socket_leave sid R s) = removeAll (sid, R) (joined s)"
  by (simp_all add: socket_leave_def)









lemma seen_chatRooms [simp]: "chatRooms (seen now p d) = chatRooms d"
  by (simp add: seen_def update_roomParticipants_def)




section \<open>Leaving a room\<close>

lemma update_roomParticipants_fields [simp]:
  "roomParticipants (update_roomParticipants c u d)
     = map (\<lambda>p. if c p then u p else p) (roomParticipants d)"
  "chatRooms (update_roomParticipants c u d) = chatRooms d"
  "chatMessages (update_roomParticipants c u d) = chatMessages d"
  "users (update_roomParticipants c u d) = users d"
  "chatRooms_seq (update_roomParticipants c u d) = chatRooms_seq d"
  "roomParticipants_seq (update_roomParticipants c u d) = roomParticipants_seq d"
  "chatMessages_seq (update_roomParticipants c u d) = chatMessages_seq d"
  by (simp_all add: update_roomParticipants_def)





lemma on_leave_room_fields:
  "db (on_leave_room now s sid user roomId)
     = (if int4 roomId
        then update_roomParticipants (\<lambda>p. p_roomId p = roomId \<and> p_userId p = su_id user)
               (\<lambda>p. p\<lparr>p_lastSeenAt := Some now, p_isActive := False\<rparr>) (db s)
        else db s)"
  "joined (on_leave_room now s sid user roomId) = removeAll (sid, roomId) (joined s)"
  "connectedUsers (on_leave_room now s sid user roomId) = connectedUsers s"
  "userRooms (on_leave_room now s sid user roomId) = userRooms s"
  "tasks (on_leave_room now s sid user roomId) = tasks s"
  "outbox (on_leave_room now s sid user roomId) sid
     = outbox s sid @ [if int4 roomId then LeftRoom roomId else ErrorEv ''Failed to leave room'']"
  by (simp_all add: on_leave_room_def handleLeaveRoom_def Let_def emit_def socket_to_emit_def)




section \<open>Presence\<close>






lemma disconnect_fields:
  "db (disconnect s sid user) = db s"
  "joined (disconnect s sid user) = filter (\<lambda>(c, r). c \<noteq> sid) (joined s)"
  "connectedUsers (disconnect s sid user) = (connectedUsers s)(sid := None)"
  "outbox (disconnect s sid user) = outbox s"
  "tasks (disconnect s sid user) = tasks s"
  by (simp_all add: disconnect_def Let_def split: option.splits)





section \<open>The connection registry\<close>

lemma fold_keeps:
  assumes "\<And>x s. g (f x s) = g s"
  shows "g (fold f xs s) = g s"
  by (induction xs arbitrary: s) (simp_all add: assms)

lemma notifyRecipient_registry:
  "connectedUsers (notifyRecipient user room name c s) = connectedUsers s"
  "userRooms (notifyRecipient user room name c s) = userRooms s"
  by (simp_all add: notifyRecipient_def emit_def split: option.splits)

lemma notifyRecipients_registry:
  "connectedUsers (notifyRecipients user room name rid s) = connectedUsers s"
  "userRooms (notifyRecipients user room name rid s) = userRooms s"
  by (simp_all add: notifyRecipients_def fold_keeps [where g = connectedUsers]
      fold_keeps [where g = userRooms] notifyRecipient_registry split: option.splits)

lemma returned_registry:
  "connectedUsers (returned caller user s) = connectedUsers s"
  "userRooms (returned caller user s) = userRooms s"
  by (cases caller; simp add: notifyRecipients_registry)+

lemma send_select_registry:
  "connectedUsers (send_select s sid user data caller) = connectedUsers s"
  "userRooms (send_select s sid user data caller) = userRooms s"
  by (simp_all add: send_select_def emit_def returned_registry wait_def split: option.splits)

lemma private_message_select_registry:
  "connectedUsers (private_message_select s sid user rid content) = connectedUsers s"
  "userRooms (private_message_select s sid user rid content) = userRooms s"
  by (simp_all add: private_message_select_def emit_def wait_def split: option.splits)

lemma resume_registry:
  "connectedUsers (resume now t s) = connectedUsers s"
  "userRooms (resume now t s) = userRooms s"
  by (cases t; simp add: room_select_def room_insert_def participants_insert_def
      send_select_registry send_insert_def send_emit_def emit_def io_to_emit_def Let_def wait_def
      notifyRecipients_registry split: option.splits prod.splits Caller.splits)+

lemma on_join_room_registry:
  "connectedUsers (on_join_room now s sid user roomId) = connectedUsers s"
  "userRooms (on_join_room now s sid user roomId) = userRooms s"
  by (auto simp: on_join_room_def handleJoinRoom_def joinSocketRoom_def emit_def
      socket_to_emit_def Let_def split: option.splits sum.splits if_splits)

lemma on_toggle_reaction_registry:
  "connectedUsers (on_toggle_reaction s sid user messageId emoji) = connectedUsers s"
  "userRooms (on_toggle_reaction s sid user messageId emoji) = userRooms s"
  unfolding on_toggle_reaction_def
  by (rule fold_keeps, simp add: socket_to_emit_def)+

lemma step_registry:
  assumes "\<And>sid user. a \<noteq> Connect sid user" and "\<And>sid. a \<noteq> Disconnect sid"
  shows "connectedUsers (step now a s) = connectedUsers s"
    and "userRooms (step now a s) = userRooms s"
  using assms
  by (cases a; simp add: on_socket_def on_join_room_registry on_leave_room_fields
      send_select_registry resume_registry private_message_select_registry on_typing_start_def
      on_typing_stop_def on_toggle_reaction_registry on_get_online_users_def emit_def
      socket_to_emit_def split: option.splits)+

lemma connection_registry:
  "connectedUsers (connection s sid user) = (connectedUsers s)(sid \<mapsto> user)"
  "userRooms (connection s sid user)
     = (userRooms s)(su_id user \<mapsto>
          set_add sid (case userRooms s (su_id user) of None \<Rightarrow> [] | Some ids \<Rightarrow> ids))"
  by (simp_all add: connection_def sendUserInfo_def emit_def Let_def split: option.splits)

lemma disconnect_registry:
  "userRooms (disconnect s sid user)
     = (case userRooms s (su_id user) of
          None \<Rightarrow> userRooms s
        | Some ids \<Rightarrow>
            if removeAll sid ids = [] then (userRooms s)(su_id user := None)
            else (userRooms s)(su_id user \<mapsto> removeAll sid ids))"
  by (simp add: disconnect_def Let_def split: option.splits)

lemma set_add_simps [simp]:
  "set (set_add x xs) = insert x (set xs)"
  "distinct (set_add x xs) = distinct xs"
  "set_add x xs \<noteq> []"
  by (auto simp: set_add_def)

lemma registry_ok_connect:
  assumes "registry_ok cu ur" and "cu sid = None"
  shows "registry_ok (cu(sid \<mapsto> user))
           (ur(su_id user \<mapsto> set_add sid (case ur (su_id user) of None \<Rightarrow> [] | Some ids \<Rightarrow> ids)))"
    (is "registry_ok ?cu ?ur")
proof -
  have listed: "\<exists>ids. ur (su_id u) = Some ids \<and> c \<in> set ids" if "cu c = Some u" for c u
    using assms(1) that unfolding registry_ok_def by blast
  have entry: "ids \<noteq> [] \<and> distinct ids \<and> (\<forall>c \<in> set ids. \<exists>u. cu c = Some u \<and> su_id u = uid)"
    if "ur uid = Some ids" for uid ids
    using assms(1) that unfolding registry_ok_def by blast
  have a: "\<exists>ids. ?ur (su_id u) = Some ids \<and> c \<in> set ids" if "?cu c = Some u" for c u
  proof (cases "c = sid")
    case True
    then show ?thesis using that by simp
  next
    case False
    then have "cu c = Some u" using that by simp
    from listed [OF this] obtain ids where "ur (su_id u) = Some ids" "c \<in> set ids"
      by blast
    then show ?thesis by (cases "su_id u = su_id user") simp_all
  qed
  have b: "ids \<noteq> [] \<and> distinct ids \<and> (\<forall>c \<in> set ids. \<exists>u. ?cu c = Some u \<and> su_id u = uid)"
    if e: "?ur uid = Some ids" for uid ids
  proof (cases "uid = su_id user")
    case False
    then have "ur uid = Some ids" using e by simp
    from entry [OF this] show ?thesis
      using assms(2) by (metis fun_upd_apply option.distinct(1))
  next
    case True
    show ?thesis
    proof (cases "ur (su_id user)")
      case None
      then have "ids = set_add sid []" using e True by simp
      then show ?thesis using True by (simp add: set_add_def)
    next
      case (Some old)
      then have ids: "ids = set_add sid old" using e True by simp
      from entry [OF Some] have "distinct old"
        and "\<forall>c \<in> set old. \<exists>u. cu c = Some u \<and> su_id u = su_id user"
        by simp_all
      then show ?thesis
        unfolding ids using True assms(2) by (auto simp: fun_upd_def)
    qed
  qed
  show ?thesis
    unfolding registry_ok_def using a b by blast
qed

lemma registry_ok_disconnect:
  assumes "registry_ok cu ur" and "cu sid = Some user"
  shows "registry_ok (cu(sid := None))
           (case ur (su_id user) of
              None \<Rightarrow> ur
            | Some ids \<Rightarrow>
                if removeAll sid ids = [] then ur(su_id user := None)
                else ur(su_id user \<mapsto> removeAll sid ids))"
    (is "registry_ok ?cu ?ur")
proof -
  have listed: "\<exists>ids. ur (su_id u) = Some ids \<and> c \<in> set ids" if "cu c = Some u" for c u
    using assms(1) that unfolding registry_ok_def by blast
  have entry: "ids \<noteq> [] \<and> distinct ids \<and> (\<forall>c \<in> set ids. \<exists>u. cu c = Some u \<and> su_id u = uid)"
    if "ur uid = Some ids" for uid ids
    using assms(1) that unfolding registry_ok_def by blast
  from listed [OF assms(2)] obtain mine where mine: "ur (su_id user) = Some mine" "sid \<in> set mine"
    by blast
  have ur: "?ur = (if removeAll sid mine = [] then ur(su_id user := None)
                   else ur(su_id user \<mapsto> removeAll sid mine))"
    using mine by simp
  have a: "\<exists>ids. ?ur (su_id u) = Some ids \<and> c \<in> set ids" if "?cu c = Some u" for c u
  proof -
    have c: "c \<noteq> sid" "cu c = Some u"
      using that by (auto split: if_splits)
    from listed [OF c(2)] obtain ids where ids: "ur (su_id u) = Some ids" "c \<in> set ids"
      by blast
    show ?thesis
    proof (cases "su_id u = su_id user")
      case True
      then have in_rest: "c \<in> set (removeAll sid mine)"
        using ids mine c by simp
      then have "removeAll sid mine \<noteq> []"
        by (metis empty_iff list.set(1))
      with in_rest show ?thesis
        unfolding ur using True by simp
    next
      case False
      then show ?thesis
        unfolding ur using ids by simp
    qed
  qed
  have b: "ids \<noteq> [] \<and> distinct ids \<and> (\<forall>c \<in> set ids. \<exists>u. ?cu c = Some u \<and> su_id u = uid)"
    if e: "?ur uid = Some ids" for uid ids
  proof (cases "uid = su_id user")
    case True
    then have ids: "ids = removeAll sid mine" "removeAll sid mine \<noteq> []"
      using e unfolding ur by (auto split: if_splits)
    from entry [OF mine(1)] show ?thesis
      unfolding ids(1) using ids(2) True by (auto simp: distinct_removeAll)
  next
    case False
    then have old: "ur uid = Some ids"
      using e unfolding ur by (auto split: if_splits)
    have "sid \<notin> set ids"
    proof
      assume "sid \<in> set ids"
      with entry [OF old] obtain u where "cu sid = Some u" "su_id u = uid"
        by blast
      with assms(2) False show False by simp
    qed
    with entry [OF old] show ?thesis
      by (metis fun_upd_apply)
  qed
  show ?thesis
    unfolding registry_ok_def using a b by blast
qed

lemma registry_consistent_step:
  assumes "registry_consistent s"
  shows "registry_consistent (step now a s)"
proof (cases a)
  case (Connect sid user)
  show ?thesis
  proof (cases "connectedUsers s sid")
    case None
    with registry_ok_connect [of "connectedUsers s" "userRooms s" sid user] assms
    show ?thesis
      by (simp add: Connect registry_consistent_def connection_registry)
  next
    case (Some u)
    with assms show ?thesis
      by (simp add: Connect)
  qed
next
  case (Disconnect sid)
  show ?thesis
  proof (cases "connectedUsers s sid")
    case None
    with assms show ?thesis
      by (simp add: Disconnect on_socket_def)
  next
    case (Some user)
    with registry_ok_disconnect [of "connectedUsers s" "userRooms s" sid user] assms
    show ?thesis
      by (simp add: Disconnect on_socket_def registry_consistent_def disconnect_fields
          disconnect_registry)
  qed
qed (use assms in \<open>simp_all only: registry_consistent_def step_registry Action.distinct
      not_False_eq_True\<close>)

lemma run_snoc: "run (acts @ [(now, a)]) s = step now a (run acts s)"
  by (simp add: run_def)

lemma registry_consistent_run:
  "registry_consistent (run acts (init us))"
proof (induction acts rule: rev_induct)
  case Nil
  show ?case
    by (simp add: run_def init_def registry_consistent_def registry_ok_def)
next
  case (snoc x acts)
  then show ?case
    by (cases x) (simp add: run_snoc registry_consistent_step)
qed

text \<open>
  Claim C10. In every state the server reaches from its start, under every sequence of
  connections, disconnections and other events, the two registries agree:
  \<^item> every socket of \<^verbatim>\<open>connectedUsers\<close> is listed in the \<^verbatim>\<open>userRooms\<close> entry of its user, and in
    no other entry;
  \<^item> every \<^verbatim>\<open>userRooms\<close> entry is a non-empty list without duplicates of sockets that are in
    \<^verbatim>\<open>connectedUsers\<close> and belong to that user;
  \<^item> \<^verbatim>\<open>getUserConnectionCount\<close> is 0 exactly for the users without a live connection;
  \<^item> when the last socket of a user disconnects, the entry of the user is removed.
\<close>

theorem registry_consistent_always:
  assumes "s = run acts (init us)"
  shows "(\<forall>sid user. connectedUsers s sid = Some user \<longrightarrow>
            (\<exists>ids. userRooms s (su_id user) = Some ids \<and> sid \<in> set ids))
         \<and> (\<forall>sid user uid ids. connectedUsers s sid = Some user \<and> userRooms s uid = Some ids
               \<and> sid \<in> set ids \<longrightarrow> uid = su_id user)
         \<and> (\<forall>uid ids. userRooms s uid = Some ids \<longrightarrow>
               ids \<noteq> [] \<and> distinct ids
               \<and> (\<forall>sid \<in> set ids. \<exists>user. connectedUsers s sid = Some user \<and> su_id user = uid))
         \<and> (\<forall>uid. getUserConnectionCount s uid = 0
               \<longleftrightarrow> \<not> (\<exists>sid user. connectedUsers s sid = Some user \<and> su_id user = uid))
         \<and> (\<forall>sid user now. connectedUsers s sid = Some user
               \<and> (\<forall>c u. connectedUsers s c = Some u \<and> su_id u = su_id user \<longrightarrow> c = sid) \<longrightarrow>
               userRooms (step now (Disconnect sid) s) (su_id user) = None
               \<and> getUserConnectionCount (step now (Disconnect sid) s) (su_id user) = 0)"
proof -
  have ok: "registry_ok (connectedUsers s) (userRooms s)"
    using registry_consistent_run [of acts us] assms by (simp add: registry_consistent_def)
  have listed: "\<exists>ids. userRooms s (su_id u) = Some ids \<and> c \<in> set ids"
    if "connectedUsers s c = Some u" for c u
    using ok that unfolding registry_ok_def by blast
  have entry: "ids \<noteq> [] \<and> distinct ids
               \<and> (\<forall>c \<in> set ids. \<exists>u. connectedUsers s c = Some u \<and> su_id u = uid)"
    if "userRooms s uid = Some ids" for uid ids
    using ok that unfolding registry_ok_def by blast
  have only: "uid = su_id user"
    if "connectedUsers s sid = Some user" "userRooms s uid = Some ids" "sid \<in> set ids"
    for sid user uid ids
    using entry [OF that(2)] that(1,3) by auto
  have count: "getUserConnectionCount s uid = 0
                 \<longleftrightarrow> \<not> (\<exists>sid user. connectedUsers s sid = Some user \<and> su_id user = uid)"
    for uid
  proof (cases "userRooms s uid")
    case None
    then show ?thesis
      using listed by (fastforce simp: getUserConnectionCount_def)
  next
    case (Some ids)
    from entry [OF this] obtain c where "c \<in> set ids"
      by (cases ids) auto
    with entry [OF Some] have "\<exists>sid user. connectedUsers s sid = Some user \<and> su_id user = uid"
      by blast
    moreover have "getUserConnectionCount s uid \<noteq> 0"
      using Some entry [OF Some] by (simp add: getUserConnectionCount_def)
    ultimately show ?thesis
      by simp
  qed
  have last: "userRooms (step now (Disconnect sid) s) (su_id user) = None
              \<and> getUserConnectionCount (step now (Disconnect sid) s) (su_id user) = 0"
    if live: "connectedUsers s sid = Some user"
      and alone: "\<forall>c u. connectedUsers s c = Some u \<and> su_id u = su_id user \<longrightarrow> c = sid"
    for sid user now
  proof -
    from listed [OF live] obtain mine where mine: "userRooms s (su_id user) = Some mine"
      by blast
    have "set mine \<subseteq> {sid}"
      using entry [OF mine] alone by blast
    then have "removeAll sid mine = []"
      by (induction mine) auto
    then show ?thesis
      using live mine
      by (simp add: on_socket_def disconnect_registry getUserConnectionCount_def)
  qed
  show ?thesis
    using listed only entry count last by blast
qed

text \<open>After \<^const>\<open>comings\<close> Alice has one live socket, Bob one and Carol none.\<close>

theorem registry_consistent_always_witness:
  "connectedUsers (run comings (init directory)) ''sa2'' = Some alice
   \<and> userRooms (run comings (init directory)) 1 = Some [''sa2'']
   \<and> getUserConnectionCount (run comings (init directory)) 2 = 1
   \<and> getUserConnectionCount (run comings (init directory)) 3 = 0
   \<and> \<not> (\<exists>sid user. connectedUsers (run comings (init directory)) sid = Some user
                      \<and> su_id user = 3)"
proof -
  have e: "connectedUsers (run comings (init directory)) ''sa2'' = Some alice
           \<and> userRooms (run comings (init directory)) 1 = Some [''sa2'']
           \<and> getUserConnectionCount (run comings (init directory)) 2 = 1
           \<and> getUserConnectionCount (run comings (init directory)) 3 = 0"
    by code_simp
  note t = registry_consistent_always [of "run comings (init directory)" comings directory,
      OF refl, THEN conjunct2, THEN conjunct2, THEN conjunct2, THEN conjunct1, THEN spec, of 3]
  from e t show ?thesis
    by simp
qed



section \<open>The order of delivery\<close>

lemma pendingEmits_simps [simp]:
  "pendingEmits (emitAll ts e s) = pendingEmits s"
  "pendingEmits (s\<lparr>db := d\<rparr>) = pendingEmits s"
  "pendingEmits (s\<lparr>joined := j\<rparr>) = pendingEmits s"
  "pendingEmits (socket_join sid R s) = pendingEmits s"
  "pendingEmits (socket_leave sid R s) = pendingEmits s"
  "pendingEmits (s\<lparr>tasks := ts'\<rparr>) = concat (map pendingEmit ts')"
  "pendingEmits (wait t s) = pendingEmits s @ pendingEmit t"
  by (simp_all add: pendingEmits_def wait_def)

lemma wait_fields [simp]:
  "db (wait t s) = db s"
  "connectedUsers (wait t s) = connectedUsers s"
  "userRooms (wait t s) = userRooms s"
  "joined (wait t s) = joined s"
  "outbox (wait t s) = outbox s"
  "tasks (wait t s) = tasks s @ [t]"
  "received (wait t s) c = received s c"
  by (simp_all add: wait_def received_def)

lemma quiet_refl [simp]: "quiet s s"
  by (simp add: quiet_def)





lemma received_socket [simp]:
  "received (socket_join sid R s) c = received s c"
  "received (socket_leave sid R s) c = received s c"
  by (simp_all add: received_def)

lemma quiet_joined [simp]: "quiet s (s\<lparr>joined := j\<rparr>)"
  by (simp add: quiet_def received_def)

lemma quiet_socket_join [simp]: "quiet s (socket_join sid R s)"
  by (simp add: quiet_def)

lemma quiet_socket_leave [simp]: "quiet s (socket_leave sid R s)"
  by (simp add: quiet_def)



















lemma then_quiet:
  assumes "quiet s1 s2"
  shows "stores s s1 \<Longrightarrow> stores s s2" and "emits s s1 \<Longrightarrow> emits s s2"
  using assms by (simp_all add: quiet_def stores_def emits_def message_of_def)


lemma withMessage_fields [simp]:
  "chatMessages (withMessage row d) = chatMessages d @ [row]"
  "chatMessages_seq (withMessage row d) = chatMessages_seq d + 1"
  "chatRooms (withMessage row d) = chatRooms d"
  "chatRooms_seq (withMessage row d) = chatRooms_seq d"
  "roomParticipants (withMessage row d) = roomParticipants d"
  "roomParticipants_seq (withMessage row d) = roomParticipants_seq d"
  "users (withMessage row d) = users d"
  by (simp_all add: withMessage_def)






















section \<open>Resolving a direct room\<close>













lemma resolveDirectRoom_found:
  assumes "directRoom d (su_username user) (user_username recipient) = Some room"
  shows "resolveDirectRoom now d user recipient = Inr (d, room)"
  using assms by (simp add: resolveDirectRoom_def directRoom_def)

lemma room_select_found:
  assumes "directRoom (db s) (su_username user) (user_username recipient) = Some room"
  shows "room_select s sid user recipient content
           = wait (AwaitSend sid user (directMessage room content)
                     (PrivateMessage room (dmRoomName (su_username user) (user_username recipient))
                        (user_id recipient))) s"
  using assms by (simp add: room_select_def directRoom_def)


text \<open>
  The statements that resolve the room, run one after the other with nothing in between, are
  \<^const>\<open>resolveDirectRoom\<close>: the lookup alone when the room exists, the lookup and the two
  inserts when it does not.
\<close>

lemma resume_last:
  assumes "length (tasks s) = n"
  shows "step now (Resume n) (wait t s) = resume now t s"
proof -
  have "step now (Resume (length (tasks s))) (wait t s) = resume now t s"
    by (simp add: wait_def)
  then show ?thesis
    using assms by simp
qed

lemma resolve_uninterrupted:
  assumes "length (tasks s) = n"
  shows "directRoom (db s) (su_username user) (user_username recipient) \<noteq> None \<Longrightarrow>
           step now (Resume n) (wait (AwaitRoom sid user recipient content) s)
             = (case resolveDirectRoom now (db s) user recipient of
                  Inl d \<Rightarrow> emit sid (ErrorEv ''Failed to send private message'') (s\<lparr>db := d\<rparr>)
                | Inr (d, room) \<Rightarrow>
                    wait (AwaitSend sid user (directMessage room content)
                            (PrivateMessage room
                               (dmRoomName (su_username user) (user_username recipient))
                               (user_id recipient))) (s\<lparr>db := d\<rparr>))"
    and "directRoom (db s) (su_username user) (user_username recipient) = None \<Longrightarrow>
           step now (Resume n) (step now (Resume n)
              (step now (Resume n) (wait (AwaitRoom sid user recipient content) s)))
             = (case resolveDirectRoom now (db s) user recipient of
                  Inl d \<Rightarrow> emit sid (ErrorEv ''Failed to send private message'') (s\<lparr>db := d\<rparr>)
                | Inr (d, room) \<Rightarrow>
                    wait (AwaitSend sid user (directMessage room content)
                            (PrivateMessage room
                               (dmRoomName (su_username user) (user_username recipient))
                               (user_id recipient))) (s\<lparr>db := d\<rparr>))"
proof -
  assume "directRoom (db s) (su_username user) (user_username recipient) \<noteq> None"
  then obtain room where
    room: "directRoom (db s) (su_username user) (user_username recipient) = Some room"
    by auto
  show "step now (Resume n) (wait (AwaitRoom sid user recipient content) s)
             = (case resolveDirectRoom now (db s) user recipient of
                  Inl d \<Rightarrow> emit sid (ErrorEv ''Failed to send private message'') (s\<lparr>db := d\<rparr>)
                | Inr (d, room) \<Rightarrow>
                    wait (AwaitSend sid user (directMessage room content)
                            (PrivateMessage room
                               (dmRoomName (su_username user) (user_username recipient))
                               (user_id recipient))) (s\<lparr>db := d\<rparr>))"
    unfolding resume_last [OF assms] resolveDirectRoom_found [OF room]
    by (simp add: room_select_found [OF room])
next
  let ?name = "dmRoomName (su_username user) (user_username recipient)"
  assume none: "directRoom (db s) (su_username user) (user_username recipient) = None"
  have 1: "step now (Resume n) (wait (AwaitRoom sid user recipient content) s)
             = wait (AwaitRoomInsert sid user recipient content) s"
    unfolding resume_last [OF assms]
    using none by (simp add: room_select_def directRoom_def)
  show "step now (Resume n) (step now (Resume n)
              (step now (Resume n) (wait (AwaitRoom sid user recipient content) s)))
             = (case resolveDirectRoom now (db s) user recipient of
                  Inl d \<Rightarrow> emit sid (ErrorEv ''Failed to send private message'') (s\<lparr>db := d\<rparr>)
                | Inr (d, room) \<Rightarrow>
                    wait (AwaitSend sid user (directMessage room content)
                            (PrivateMessage room ?name (user_id recipient))) (s\<lparr>db := d\<rparr>))"
  proof (cases "chatRooms_accepts (directRoomValues user ?name)")
    case False
    have 2: "step now (Resume n) (wait (AwaitRoomInsert sid user recipient content) s)
               = emit sid (ErrorEv ''Failed to send private message'') s"
      unfolding resume_last [OF assms]
      using False by (simp add: room_insert_def)
    have 3: "step now (Resume n) (emit sid (ErrorEv ''Failed to send private message'') s)
               = emit sid (ErrorEv ''Failed to send private message'') s"
      using assms by (simp add: emit_def)
    have r: "resolveDirectRoom now (db s) user recipient = Inl (db s)"
      using none False by (simp add: resolveDirectRoom_def directRoom_def)
    show ?thesis
      unfolding 1 2 3 r by simp
  next
    case True
    let ?room = "(directRoomValues user ?name)\<lparr>room_id := chatRooms_seq (db s)\<rparr>"
    let ?d1 = "withRoom ?room (db s)"
    let ?s1 = "s\<lparr>db := ?d1\<rparr>"
    have len: "length (tasks ?s1) = n"
      using assms by simp
    have 2: "step now (Resume n) (wait (AwaitRoomInsert sid user recipient content) s)
               = wait (AwaitParticipants sid user recipient ?room content) ?s1"
      unfolding resume_last [OF assms]
      using True
      by (simp add: room_insert_def insert_chatRooms_withRoom Let_def)
    show ?thesis
    proof (cases "insert_roomParticipants (directParticipants now user recipient ?room) ?d1")
      case None
      have 3: "step now (Resume n) (wait (AwaitParticipants sid user recipient ?room content) ?s1)
                 = emit sid (ErrorEv ''Failed to send private message'') ?s1"
        unfolding resume_last [OF len]
        using None by (simp add: participants_insert_def)
      have r: "resolveDirectRoom now (db s) user recipient = Inl ?d1"
        using none True None
        by (simp add: resolveDirectRoom_def directRoom_def insert_chatRooms_withRoom Let_def)
      show ?thesis
        unfolding 1 2 3 r by simp
    next
      case (Some d2)
      have 3: "step now (Resume n) (wait (AwaitParticipants sid user recipient ?room content) ?s1)
                 = wait (AwaitSend sid user (directMessage ?room content)
                           (PrivateMessage ?room ?name (user_id recipient))) (s\<lparr>db := d2\<rparr>)"
        unfolding resume_last [OF len]
        using Some by (simp add: participants_insert_def)
      have r: "resolveDirectRoom now (db s) user recipient = Inr (d2, ?room)"
        using none True Some
        by (simp add: resolveDirectRoom_def directRoom_def insert_chatRooms_withRoom Let_def)
      show ?thesis
        unfolding 1 2 3 r by simp
    qed
  qed
qed




end
